theory Spec2Isabelle
  imports Complex_Main "HOL-Library.Sublist"
begin

section \<open>JavaScript values\<close>

text \<open>
  The module \<^verbatim>\<open>lib/services/ngsi/entities-NGSI-LD.js\<close> works on plain JSON data.
  A number is a rational, or one of the three non-finite values: the model keeps
  the decimal value a literal denotes and leaves IEEE rounding out.
  An object is the list of its own properties in enumeration order.
\<close>

datatype jsnum = NaN | PInf | NInf | Fin rat

datatype jv =
    JUndef
  | JNull
  | JBool bool
  | JNum jsnum
  | JStr string
  | JArr "jv list"
  | JObj "(string \<times> jv) list"

text \<open>What a \<^verbatim>\<open>throw\<close> of the module or of a builtin raises.\<close>

datatype exn = TypeError | SyntaxError | PlainError

fun isNaN :: "jsnum \<Rightarrow> bool" where
  "isNaN NaN = True"
| "isNaN _ = False"

fun truthy :: "jv \<Rightarrow> bool" where
  "truthy JUndef = False"
| "truthy JNull = False"
| "truthy (JBool b) = b"
| "truthy (JNum NaN) = False"
| "truthy (JNum (Fin r)) = (r \<noteq> 0)"
| "truthy (JNum _) = True"
| "truthy (JStr s) = (s \<noteq> [])"
| "truthy (JArr _) = True"
| "truthy (JObj _) = True"

subsection \<open>Strings and numbers\<close>

definition isDigit :: "char \<Rightarrow> bool" where
  "isDigit c = (c \<in> set ''0123456789'')"

definition digitVal :: "char \<Rightarrow> nat" where
  "digitVal c = of_char c - 48"

definition digitsVal :: "string \<Rightarrow> nat" where
  "digitsVal s = foldl (\<lambda>acc c. 10 * acc + digitVal c) 0 s"

definition isHexDigit :: "char \<Rightarrow> bool" where
  "isHexDigit c = (c \<in> set ''0123456789abcdefABCDEF'')"

definition hexVal :: "char \<Rightarrow> nat" where
  "hexVal c = (if isDigit c then of_char c - 48
               else if c \<in> set ''abcdef'' then of_char c - 87
               else of_char c - 55)"

definition hexDigitsVal :: "string \<Rightarrow> nat" where
  "hexDigitsVal s = foldl (\<lambda>acc c. 16 * acc + hexVal c) 0 s"

text \<open>The ASCII white space that \<^verbatim>\<open>parseFloat\<close> and \<^verbatim>\<open>parseInt\<close> skip.\<close>

definition isSpace :: "char \<Rightarrow> bool" where
  "isSpace c = (of_char c \<in> {9, 10, 11, 12, 13, 32 :: nat})"

fun splitSign :: "string \<Rightarrow> rat \<times> string" where
  "splitSign [] = (1, [])"
| "splitSign (c # cs) =
     (if c = CHR ''-'' then (- 1, cs) else if c = CHR ''+'' then (1, cs) else (1, c # cs))"

text \<open>The exponent part of a decimal literal, 0 when there is none.\<close>

fun exponentOf :: "string \<Rightarrow> int" where
  "exponentOf [] = 0"
| "exponentOf (c # cs) =
     (if c = CHR ''e'' \<or> c = CHR ''E'' then
        (case splitSign cs of (sg, ds) \<Rightarrow>
           if takeWhile isDigit ds = [] then 0
           else (if sg < 0 then - int (digitsVal (takeWhile isDigit ds))
                 else int (digitsVal (takeWhile isDigit ds))))
      else 0)"

text \<open>
  The number of a decimal value: infinite from the value on that rounds beyond
  the largest finite number, the value itself below (rounding to the nearest
  number of 64 bits is left out).
\<close>

definition toDouble :: "rat \<Rightarrow> jsnum" where
  "toDouble r =
     (if 2 ^ 1024 - 2 ^ 970 \<le> \<bar>r\<bar> then (if r < 0 then NInf else PInf) else Fin r)"

definition scale10 :: "rat \<Rightarrow> int \<Rightarrow> rat" where
  "scale10 m e = (if 0 \<le> e then m * 10 ^ nat e else m / 10 ^ nat (- e))"

text \<open>\<^verbatim>\<open>parseFloat\<close> on a string: the longest prefix that is a decimal literal.\<close>

definition parseFloatStr :: "string \<Rightarrow> jsnum" where
  "parseFloatStr s =
     (case splitSign (dropWhile isSpace s) of (sg, s2) \<Rightarrow>
        if prefix ''Infinity'' s2 then (if sg < 0 then NInf else PInf)
        else
          let ip = takeWhile isDigit s2;
              r1 = dropWhile isDigit s2;
              fp = (case r1 of [] \<Rightarrow> [] | c # r \<Rightarrow>
                      if c = CHR ''.'' then takeWhile isDigit r else []);
              r2 = (case r1 of [] \<Rightarrow> [] | c # r \<Rightarrow>
                      if c = CHR ''.'' then dropWhile isDigit r else r1)
          in if ip = [] \<and> fp = [] then NaN
             else toDouble (scale10 (sg * of_nat (digitsVal (ip @ fp)) / 10 ^ length fp)
                              (exponentOf r2)))"

text \<open>\<^verbatim>\<open>parseInt\<close> on a string, no radix given: decimal, or hexadecimal after 0x.\<close>

definition parseIntStr :: "string \<Rightarrow> jsnum" where
  "parseIntStr s =
     (case splitSign (dropWhile isSpace s) of (sg, s2) \<Rightarrow>
        if prefix ''0x'' s2 \<or> prefix ''0X'' s2 then
          (if takeWhile isHexDigit (drop 2 s2) = [] then NaN
           else toDouble (sg * of_nat (hexDigitsVal (takeWhile isHexDigit (drop 2 s2)))))
        else if takeWhile isDigit s2 = [] then NaN
        else toDouble (sg * of_nat (digitsVal (takeWhile isDigit s2))))"

text \<open>\<^verbatim>\<open>String.prototype.split\<close> with a one-character separator.\<close>

fun splitOn :: "char \<Rightarrow> string \<Rightarrow> string list" where
  "splitOn c [] = [[]]"
| "splitOn c (x # xs) =
     (if x = c then [] # splitOn c xs
      else (case splitOn c xs of [] \<Rightarrow> [[x]] | p # ps \<Rightarrow> (x # p) # ps))"

fun joinWith :: "string \<Rightarrow> string list \<Rightarrow> string" where
  "joinWith sep [] = []"
| "joinWith sep [x] = x"
| "joinWith sep (x # y # ys) = x @ sep @ joinWith sep (y # ys)"

text \<open>
  \<^verbatim>\<open>ToString\<close>. How a finite number prints is left to the parameter \<open>nts\<close>
  (\<^verbatim>\<open>Number.prototype.toString\<close>).
\<close>

fun toStr :: "(rat \<Rightarrow> string) \<Rightarrow> jv \<Rightarrow> string"
  and toStrElem :: "(rat \<Rightarrow> string) \<Rightarrow> jv \<Rightarrow> string" where
  "toStr nts JUndef = ''undefined''"
| "toStr nts JNull = ''null''"
| "toStr nts (JBool b) = (if b then ''true'' else ''false'')"
| "toStr nts (JNum NaN) = ''NaN''"
| "toStr nts (JNum PInf) = ''Infinity''"
| "toStr nts (JNum NInf) = ''-Infinity''"
| "toStr nts (JNum (Fin r)) = nts r"
| "toStr nts (JStr s) = s"
| "toStr nts (JArr xs) = joinWith '','' (map (toStrElem nts) xs)"
| "toStr nts (JObj kvs) = ''[object Object]''"
| "toStrElem nts JUndef = []"
| "toStrElem nts JNull = []"
| "toStrElem nts v = toStr nts v"

definition parseFloat :: "(rat \<Rightarrow> string) \<Rightarrow> jv \<Rightarrow> jsnum" where
  "parseFloat nts v = parseFloatStr (toStr nts v)"

definition parseInt :: "(rat \<Rightarrow> string) \<Rightarrow> jv \<Rightarrow> jsnum" where
  "parseInt nts v = parseIntStr (toStr nts v)"

subsection \<open>Objects\<close>

function showNat :: "nat \<Rightarrow> string" where
  "showNat n = (if n < 10 then [char_of (48 + n)]
                else showNat (n div 10) @ [char_of (48 + n mod 10)])"
  by pat_completeness auto
termination
  by (relation "measure id") auto

text \<open>An array index as a property name: canonical decimal digits.\<close>

definition indexOf :: "string \<Rightarrow> nat option" where
  "indexOf k = (if k \<noteq> [] \<and> list_all isDigit k \<and> (k = ''0'' \<or> hd k \<noteq> CHR ''0'')
                then Some (digitsVal k) else None)"

text \<open>
  Reading a property, \<^verbatim>\<open>v.k\<close> or \<^verbatim>\<open>v[k]\<close>: a \<^verbatim>\<open>TypeError\<close> on
  \<^verbatim>\<open>undefined\<close> and \<^verbatim>\<open>null\<close>, \<^verbatim>\<open>undefined\<close> for a property the value
  does not own (prototype members are not data and are left out).
\<close>

fun getProp :: "jv \<Rightarrow> string \<Rightarrow> exn + jv" where
  "getProp JUndef k = Inl TypeError"
| "getProp JNull k = Inl TypeError"
| "getProp (JObj kvs) k = Inr (case map_of kvs k of None \<Rightarrow> JUndef | Some v \<Rightarrow> v)"
| "getProp (JArr xs) k =
     (if k = ''length'' then Inr (JNum (Fin (of_nat (length xs))))
      else (case indexOf k of None \<Rightarrow> Inr JUndef
            | Some i \<Rightarrow> Inr (if i < length xs then xs ! i else JUndef)))"
| "getProp (JStr s) k =
     (if k = ''length'' then Inr (JNum (Fin (of_nat (length s))))
      else (case indexOf k of None \<Rightarrow> Inr JUndef
            | Some i \<Rightarrow> Inr (if i < length s then JStr [s ! i] else JUndef)))"
| "getProp _ k = Inr JUndef"

text \<open>
  The own enumerable properties with their values: what \<^verbatim>\<open>Object.keys(v)\<close>
  followed by \<^verbatim>\<open>v[key]\<close> and what \<^verbatim>\<open>for (k in v)\<close> visit.
\<close>

fun entries :: "jv \<Rightarrow> (string \<times> jv) list" where
  "entries (JObj kvs) = kvs"
| "entries (JArr xs) = zip (map showNat [0..<length xs]) xs"
| "entries (JStr s) = zip (map showNat [0..<length s]) (map (\<lambda>c. JStr [c]) s)"
| "entries _ = []"

text \<open>
  \<^verbatim>\<open>obj[k] = v\<close> and \<^verbatim>\<open>delete obj[k]\<close> on the property list of an object: a
  property that is there keeps its place, a new one is added where the
  enumeration of the object has it.
\<close>

fun replaceProp :: "(string \<times> jv) list \<Rightarrow> string \<Rightarrow> jv \<Rightarrow> (string \<times> jv) list" where
  "replaceProp [] k v = []"
| "replaceProp ((k', v') # kvs) k v =
     (if k' = k then (k, v) # kvs else (k', v') # replaceProp kvs k v)"

text \<open>
  The names that an object enumerates first, in ascending order, before its other
  properties in the order they were added: the array indices, below \<open>2^32 - 1\<close>.
\<close>

definition arrayIndex :: "string \<Rightarrow> nat option" where
  "arrayIndex k =
     (case indexOf k of None \<Rightarrow> None | Some i \<Rightarrow> if i < 4294967295 then Some i else None)"

fun insertIndexed :: "nat \<Rightarrow> string \<times> jv \<Rightarrow> (string \<times> jv) list \<Rightarrow> (string \<times> jv) list" where
  "insertIndexed i kv [] = [kv]"
| "insertIndexed i kv (kv' # kvs) =
     (case arrayIndex (fst kv') of
        None \<Rightarrow> kv # kv' # kvs
      | Some j \<Rightarrow> if j < i then kv' # insertIndexed i kv kvs else kv # kv' # kvs)"

definition setProp :: "(string \<times> jv) list \<Rightarrow> string \<Rightarrow> jv \<Rightarrow> (string \<times> jv) list" where
  "setProp kvs k v =
     (if k \<in> fst ` set kvs then replaceProp kvs k v
      else (case arrayIndex k of
              None \<Rightarrow> kvs @ [(k, v)]
            | Some i \<Rightarrow> insertIndexed i (k, v) kvs))"

definition delProp :: "(string \<times> jv) list \<Rightarrow> string \<Rightarrow> (string \<times> jv) list" where
  "delProp kvs k = filter (\<lambda>kv. fst kv \<noteq> k) kvs"

definition lowerChar :: "char \<Rightarrow> char" where
  "lowerChar c = (if 65 \<le> (of_char c :: nat) \<and> (of_char c :: nat) \<le> 90
                  then char_of (of_char c + 32 :: nat) else c)"

definition toLowerCase :: "string \<Rightarrow> string" where
  "toLowerCase s = map lowerChar s"

section \<open>Geo-coordinates\<close>

text \<open>
  \<^verbatim>\<open>splitLngLat\<close>. A string is split at its commas; the pieces hold no comma,
  so each is parsed as a number (\<open>splitStr\<close>). In an array, an array element and
  a string element with a comma are split in turn, any other element is parsed.
  The source writes the results back into the array it was given.
\<close>

definition splitStr :: "string \<Rightarrow> jv" where
  "splitStr s = JArr (map (\<lambda>p. JNum (parseFloatStr p)) (splitOn CHR '','' s))"

fun splitElem :: "(rat \<Rightarrow> string) \<Rightarrow> jv \<Rightarrow> jv" where
  "splitElem nts (JArr xs) = JArr (map (splitElem nts) xs)"
| "splitElem nts (JStr s) =
     (if CHR '','' \<in> set s then splitStr s else JNum (parseFloatStr s))"
| "splitElem nts v = JNum (parseFloat nts v)"

fun splitLngLat :: "(rat \<Rightarrow> string) \<Rightarrow> jv \<Rightarrow> exn + jv" where
  "splitLngLat nts (JStr s) = Inr (splitStr s)"
| "splitLngLat nts (JArr xs) = Inr (JArr (map (splitElem nts) xs))"
| "splitLngLat nts v = Inl TypeError"

text \<open>\<^verbatim>\<open>_.flatten\<close>, all levels.\<close>

fun flatten :: "jv \<Rightarrow> jv list" where
  "flatten (JArr xs) = concat (map flatten xs)"
| "flatten v = [v]"

fun pairUp :: "jv list \<Rightarrow> jv list" where
  "pairUp (a # b # rest) = JArr [a, b] # pairUp rest"
| "pairUp _ = []"

definition getLngLats :: "(rat \<Rightarrow> string) \<Rightarrow> jv \<Rightarrow> exn + jv" where
  "getLngLats nts v =
     (case splitLngLat nts v of
        Inl e \<Rightarrow> Inl e
      | Inr sp \<Rightarrow>
          let lngLats = flatten sp in
          if length lngLats = 2 then Inr (JArr lngLats)
          else if length lngLats mod 2 \<noteq> 0 then Inl PlainError
          else Inr (JArr (pairUp lngLats)))"

section \<open>What the module takes from outside\<close>

text \<open>
  The builtins whose result is not computed here, the constants of
  \<^verbatim>\<open>lib/constants.js\<close>, the configuration and the date library are parameters:
  \<^item> \<open>numToString\<close>: \<^verbatim>\<open>Number.prototype.toString\<close> on a finite number;
  \<^item> \<open>isFloat\<close>: \<^verbatim>\<open>NGSIUtils.isFloat\<close>, which may throw;
  \<^item> \<open>momentIsValid v\<close>: \<^verbatim>\<open>moment(v).isValid()\<close>;
  \<^item> \<open>momentISO v\<close>: \<^verbatim>\<open>moment.tz(v, 'Etc/UTC').toISOString()\<close>, and
    \<open>momentDate\<close>, \<open>momentTime\<close> the same moment under
    \<^verbatim>\<open>format(moment.HTML5_FMT.DATE)\<close> and \<^verbatim>\<open>format(moment.HTML5_FMT.TIME_SECONDS)\<close>;
  \<^item> \<open>TIMESTAMP_ATTRIBUTE\<close>, \<open>ATTRIBUTE_DEFAULT\<close>, \<open>DATETIME_DEFAULT\<close>:
    the constants of these names;
  \<^item> \<open>jsonLdContext\<close>: \<^verbatim>\<open>config.getConfig().contextBroker.jsonLdContext\<close>, and
    \<open>configTimestamp\<close>: \<^verbatim>\<open>config.getConfig().timestamp\<close>;
  \<^item> \<open>strToNumber\<close>: the number a string converts to in a comparison, and
    \<open>jsonParse\<close>: \<^verbatim>\<open>JSON.parse\<close> on a string;
  \<^item> \<open>getErrorField\<close>, \<open>getMetaData\<close>, \<open>castJsonNativeAttributes\<close>:
    the functions of \<^verbatim>\<open>NGSIUtils\<close> of these names; \<open>createRequestObject\<close>
    gives the properties of the request object, or throws;
  \<^item> \<open>statsAdd\<close>: the error \<^verbatim>\<open>statsService.add\<close> hands to its callback;
  \<^item> \<open>updateMiddleware p t\<close> and \<open>queryMiddleware r t\<close>: the error and the
    result that \<^verbatim>\<open>NGSIUtils.applyMiddlewares\<close> hands to its callback for the
    update and the query middlewares;
  \<^item> \<open>isTimestampedNgsi2\<close>, \<open>IsValidTimestampedNgsi2\<close>: the functions of
    \<^verbatim>\<open>restUtils\<close>; \<open>addTimestamp\<close>: \<^verbatim>\<open>NGSIv2.addTimestamp\<close>, which adds
    the timestamp to the payload it is given and returns that payload;
  \<^item> \<open>transport sent req\<close>: the error, the response and the body that
    \<^verbatim>\<open>request\<close> hands to its callback for the request \<open>req\<close>, issued after
    the requests \<open>sent\<close>.
\<close>

record env =
  numToString :: "rat \<Rightarrow> string"
  isFloat :: "jv \<Rightarrow> exn + bool"
  momentIsValid :: "jv \<Rightarrow> bool"
  momentISO :: "jv \<Rightarrow> jv"
  momentDate :: "jv \<Rightarrow> jv"
  momentTime :: "jv \<Rightarrow> jv"
  TIMESTAMP_ATTRIBUTE :: string
  ATTRIBUTE_DEFAULT :: string
  DATETIME_DEFAULT :: string
  jsonLdContext :: string
  configTimestamp :: jv
  strToNumber :: "string \<Rightarrow> jsnum"
  jsonParse :: "string \<Rightarrow> exn + jv"
  getErrorField :: "jv \<Rightarrow> exn + jv"
  getMetaData :: "jv \<Rightarrow> jv \<Rightarrow> jv \<Rightarrow> jv"
  castJsonNativeAttributes :: "jv \<Rightarrow> jv"
  createRequestObject :: "string \<Rightarrow> jv \<Rightarrow> jv \<Rightarrow> exn + (string \<times> jv) list"
  statsAdd :: jv
  updateMiddleware :: "jv \<Rightarrow> jv \<Rightarrow> jv \<times> jv"
  queryMiddleware :: "jv \<Rightarrow> jv \<Rightarrow> jv \<times> jv"
  isTimestampedNgsi2 :: "jv \<Rightarrow> bool"
  IsValidTimestampedNgsi2 :: "jv \<Rightarrow> bool"
  addTimestamp :: "jv \<Rightarrow> jv \<Rightarrow> jv"
  transport :: "jv list \<Rightarrow> jv \<Rightarrow> jv \<times> jv \<times> jv"

section \<open>Attribute conversion\<close>

definition valueOfOrDefault :: "jsnum \<Rightarrow> jsnum \<Rightarrow> jsnum" where
  "valueOfOrDefault v defaultValue = (if isNaN v then defaultValue else v)"

definition geoProperty :: "string \<Rightarrow> jv \<Rightarrow> (string \<times> jv) list" where
  "geoProperty g coords =
     [(''type'', JStr ''GeoProperty''),
      (''value'', JObj [(''type'', JStr g), (''coordinates'', coords)])]"

definition property :: "jv \<Rightarrow> (string \<times> jv) list" where
  "property v = [(''type'', JStr ''Property''), (''value'', v)]"

definition geoWith :: "string \<Rightarrow> exn + jv \<Rightarrow> exn + (string \<times> jv) list" where
  "geoWith g r = (case r of Inl e \<Rightarrow> Inl e | Inr coords \<Rightarrow> Inr (geoProperty g coords))"

text \<open>
  The \<^verbatim>\<open>switch (attr.type.toLowerCase())\<close> of \<^verbatim>\<open>convertNGSIv2ToLD\<close>: from the
  declared type \<open>ty\<close> and the value \<open>v\<close> of the attribute to the properties of
  \<^verbatim>\<open>obj\<close>, or the exception of \<^verbatim>\<open>getLngLats\<close> or of \<^verbatim>\<open>NGSIUtils.isFloat\<close>.
\<close>

definition castByType :: "'a env_scheme \<Rightarrow> string \<Rightarrow> jv \<Rightarrow> exn + (string \<times> jv) list" where
  "castByType E ty v =
     (let t = toLowerCase ty; nts = numToString E in
      if t = ''property'' \<or> t = ''string'' then Inr (property v)
      else if t = ''boolean'' then Inr (property (JBool (truthy v)))
      else if t = ''float'' then
        Inr (property (JNum (valueOfOrDefault (parseFloat nts v) (Fin 0))))
      else if t = ''integer'' then
        Inr (property (JNum (valueOfOrDefault (parseInt nts v) (Fin 0))))
      else if t = ''number'' then
        (case isFloat E v of
           Inl e \<Rightarrow> Inl e
         | Inr True \<Rightarrow> Inr (property (JNum (valueOfOrDefault (parseFloat nts v) (Fin 0))))
         | Inr False \<Rightarrow> Inr (property (JNum (valueOfOrDefault (parseInt nts v) (Fin 0)))))
      else if t = ''datetime'' then
        Inr (property (JObj [(''@type'', JStr ''DateTime''), (''@value'', momentISO E v)]))
      else if t = ''date'' then
        Inr (property (JObj [(''@type'', JStr ''Date''), (''@value'', momentDate E v)]))
      else if t = ''time'' then
        Inr (property (JObj [(''@type'', JStr ''Time''), (''@value'', momentTime E v)]))
      else if t = ''geoproperty'' \<or> t = ''point'' \<or> t = ''geo:point'' then
        geoWith ''Point'' (getLngLats nts v)
      else if t = ''linestring'' \<or> t = ''geo:linestring'' then
        geoWith ''LineString'' (getLngLats nts v)
      else if t = ''polygon'' \<or> t = ''geo:polygon'' then
        geoWith ''Polygon'' (getLngLats nts v)
      else if t = ''multipoint'' \<or> t = ''geo:multipoint'' then
        geoWith ''MultiPoint'' (getLngLats nts v)
      else if t = ''multilinestring'' \<or> t = ''geo:multilinestring'' then
        Inr (geoProperty ''MultiLineString'' v)
      else if t = ''multipolygon'' \<or> t = ''geo:multipolygon'' then
        Inr (geoProperty ''MultiPolygon'' v)
      else if t = ''relationship'' then
        Inr [(''type'', JStr ''Relationship''), (''object'', v)]
      else Inr (property (JObj [(''@type'', JStr ty), (''@value'', v)])))"

text \<open>
  \<^verbatim>\<open>convertNGSIv2ToLD\<close>. \<open>convertMetadata\<close> is the body of
  \<^verbatim>\<open>Object.keys(attr.metadata).forEach\<close>, run over the entries of the metadata
  in order, on the properties of \<^verbatim>\<open>obj\<close> so far.
\<close>

function convertNGSIv2ToLD :: "'a env_scheme \<Rightarrow> jv \<Rightarrow> exn + jv"
  and convertMetadata ::
    "'a env_scheme \<Rightarrow> (string \<times> jv) list \<Rightarrow> (string \<times> jv) list \<Rightarrow> exn + (string \<times> jv) list"
where
  "convertNGSIv2ToLD E attr =
     (case getProp attr ''value'' of
        Inl e \<Rightarrow> Inl e
      | Inr v \<Rightarrow>
         (case getProp attr ''type'' of
            Inl e \<Rightarrow> Inl e
          | Inr (JStr ty) \<Rightarrow>
             (case castByType E ty v of
                Inl e \<Rightarrow> Inl e
              | Inr obj \<Rightarrow>
                 (case getProp attr ''metadata'' of
                    Inl e \<Rightarrow> Inl e
                  | Inr m \<Rightarrow>
                     if truthy m then
                       (case convertMetadata E (entries m) obj of
                          Inl e \<Rightarrow> Inl e
                        | Inr obj' \<Rightarrow> Inr (JObj (delProp obj' ''TimeInstant'')))
                     else Inr (JObj obj)))
          | Inr _ \<Rightarrow> Inl TypeError))"
| "convertMetadata E [] obj = Inr obj"
| "convertMetadata E ((key, mv) # rest) obj =
     (if key = TIMESTAMP_ATTRIBUTE E then
        (case getProp mv ''value'' of
           Inl e \<Rightarrow> Inl e
         | Inr timestamp \<Rightarrow>
            if timestamp = JStr (ATTRIBUTE_DEFAULT E) \<or> \<not> momentIsValid E timestamp
            then convertMetadata E rest (setProp obj ''observedAt'' (JStr (DATETIME_DEFAULT E)))
            else convertMetadata E rest (setProp obj ''observedAt'' (momentISO E timestamp)))
      else if key = ''unitCode'' then
        (case getProp mv ''value'' of
           Inl e \<Rightarrow> Inl e
         | Inr u \<Rightarrow> convertMetadata E rest (setProp obj ''unitCode'' u))
      else
        (case convertNGSIv2ToLD E mv of
           Inl e \<Rightarrow> Inl e
         | Inr c \<Rightarrow> convertMetadata E rest (setProp obj key c)))"
  by pat_completeness auto

text \<open>Termination: a metadata entry is smaller than the attribute that holds it.\<close>

fun maxSize :: "(string \<times> jv) list \<Rightarrow> nat" where
  "maxSize [] = 0"
| "maxSize ((k, v) # kvs) = max (size v) (maxSize kvs)"

lemma maxSize_obj: "maxSize kvs \<le> size_list (size_prod (\<lambda>x. 0) size) kvs"
  by (induction kvs rule: maxSize.induct) auto

lemma maxSize_zip: "maxSize (zip ks xs) \<le> size_list size xs"
proof (induction xs arbitrary: ks)
  case Nil
  then show ?case by simp
next
  case (Cons x xs)
  show ?case
  proof (cases ks)
    case Nil
    then show ?thesis by simp
  next
    case (Cons k ks')
    have "maxSize (zip ks' xs) \<le> size_list size xs" by (rule Cons.IH)
    then show ?thesis using Cons by simp
  qed
qed

lemma maxSize_chars: "maxSize (zip ks (map (\<lambda>c. JStr [c]) s)) = 0"
proof (induction s arbitrary: ks)
  case Nil
  then show ?case by simp
next
  case (Cons c s)
  then show ?case by (cases ks) simp_all
qed

lemma maxSize_entries: "maxSize (entries m) \<le> size m"
proof (cases m)
  case (JObj kvs)
  then show ?thesis using maxSize_obj [of kvs] by simp
next
  case (JArr xs)
  then show ?thesis using maxSize_zip [of "map showNat [0..<length xs]" xs] by simp
next
  case (JStr s)
  then show ?thesis using maxSize_chars [of "map showNat [0..<length s]" s] by simp
qed simp_all

lemma map_of_size:
  "map_of kvs k = Some v \<Longrightarrow> size v < size_list (size_prod (\<lambda>x. 0) size) kvs + Suc 0"
  by (induction kvs) (auto split: if_splits)

lemma indexOf_metadata: "indexOf ''metadata'' = None"
  by (simp add: indexOf_def isDigit_def)

lemma getProp_metadata_size:
  "getProp attr ''metadata'' = Inr m \<Longrightarrow> truthy m \<Longrightarrow> size m < size attr"
proof (cases attr)
  case (JObj kvs)
  assume "getProp attr ''metadata'' = Inr m" "truthy m"
  then show ?thesis using JObj map_of_size [of kvs "''metadata''" m]
    by (auto split: option.splits)
qed (auto simp: indexOf_metadata)

termination convertNGSIv2ToLD
proof (relation "inv_image (less_than <*lex*> less_than)
    (\<lambda>x. case x of Inl (E, attr) \<Rightarrow> (size attr, 0)
                  | Inr (E, kvs, obj) \<Rightarrow> (maxSize kvs, Suc (length kvs)))", goal_cases)
  case 1
  show ?case by (intro wf_inv_image wf_lex_prod wf_less_than)
next
  case (2 E attr b ba x5 baa bb)
  then show ?case
    using getProp_metadata_size [of attr bb] maxSize_entries [of bb] by simp
qed auto

declare convertNGSIv2ToLD.simps [simp del]

text \<open>
  \<^verbatim>\<open>formatAsNGSILD\<close>. \<open>formatEntries\<close> is the body of
  \<^verbatim>\<open>Object.keys(json).forEach\<close>, run over the entries of \<^verbatim>\<open>json\<close> in order.
\<close>

definition NGSI_LD_URN :: string where
  "NGSI_LD_URN = ''urn:ngsi-ld:''"

fun formatEntries ::
  "'a env_scheme \<Rightarrow> jv \<Rightarrow> (string \<times> jv) list \<Rightarrow> (string \<times> jv) list \<Rightarrow> exn + (string \<times> jv) list"
where
  "formatEntries E json [] obj = Inr obj"
| "formatEntries E json ((key, v) # rest) obj =
     (if key = ''id'' then
        (case v of
           JStr i \<Rightarrow>
             (case getProp json ''type'' of
                Inl e \<Rightarrow> Inl e
              | Inr ty \<Rightarrow>
                 formatEntries E json rest
                   (setProp obj key
                      (if prefix NGSI_LD_URN i then JStr i
                       else JStr (NGSI_LD_URN @ toStr (numToString E) ty @ '':'' @ i))))
         | _ \<Rightarrow> Inl TypeError)
      else if key = ''type'' then formatEntries E json rest (setProp obj key v)
      else if key = ''@context'' \<or> key = TIMESTAMP_ATTRIBUTE E then formatEntries E json rest obj
      else
        (case convertNGSIv2ToLD E v of
           Inl e \<Rightarrow> Inl e
         | Inr c \<Rightarrow> formatEntries E json rest (setProp obj key c)))"

definition formatAsNGSILD :: "'a env_scheme \<Rightarrow> jv \<Rightarrow> exn + jv" where
  "formatAsNGSILD E json =
     (case json of
        JUndef \<Rightarrow> Inl TypeError
      | JNull \<Rightarrow> Inl TypeError
      | _ \<Rightarrow>
        (case formatEntries E json (entries json)
                [(''@context'', JArr (map JStr (splitOn CHR '';'' (jsonLdContext E))))] of
           Inl e \<Rightarrow> Inl e
         | Inr obj \<Rightarrow> Inr (JObj (delProp obj ''TimeInstant''))))"

section \<open>The exchange with the context broker\<close>

text \<open>
  The errors of \<^verbatim>\<open>lib/errors.js\<close> that the module builds, with the arguments it
  gives them (the text of a message is left out), and \<open>Other\<close> for an error value
  the module only hands on.
\<close>

datatype err =
    Other jv
  | BadRequest jv
  | BadAnswer jv string
  | AccessForbidden jv jv jv
  | DeviceNotFound jv
  | AttributeNotFound
  | EntityGenericError jv jv jv jv
  | TypeNotFound jv jv
  | BadTimestamp jv
  | BadGeocoordinates

text \<open>
  How a call ends: the callback is called without an error (\<open>Success\<close>, with the
  result) or with one (\<open>Failure\<close>), an exception leaves the module and the
  callback is never called (\<open>Uncaught\<close>), or a loop does not end (\<open>Hangs\<close>).
\<close>

datatype outcome = Success jv | Failure err | Uncaught exn | Hangs

text \<open>
  Modelled from the spec: the alarm manager \<^verbatim>\<open>lib/services/common/alarmManagement\<close>
  is not part of the sources at hand. The specification has one boolean per alarm
  key, raised on failure and released on success; the module uses the one key
  \<^verbatim>\<open>constants.ORION_ALARM\<close>. \<open>sent\<close> is the list of the request objects handed to
  \<^verbatim>\<open>request\<close> so far.
\<close>

record world =
  alarm :: bool
  sent :: "jv list"

definition raise :: "world \<Rightarrow> world" where
  "raise w = w\<lparr>alarm := True\<rparr>"

definition release :: "world \<Rightarrow> world" where
  "release w = w\<lparr>alarm := False\<rparr>"

text \<open>\<^verbatim>\<open>response.statusCode === n\<close>, for a response that is not null or undefined.\<close>

definition statusIs :: "jv \<Rightarrow> rat \<Rightarrow> bool" where
  "statusIs response n = (getProp response ''statusCode'' = Inr (JNum (Fin n)))"

fun includesStr :: "string \<Rightarrow> string \<Rightarrow> bool" where
  "includesStr [] t = (t = [])"
| "includesStr (c # cs) t = (prefix t (c # cs) \<or> includesStr cs t)"

text \<open>
  The equality \<^verbatim>\<open>Array.prototype.includes\<close> uses: two arrays or objects of
  separate origin are never the same.
\<close>

fun sameValueZero :: "jv \<Rightarrow> jv \<Rightarrow> bool" where
  "sameValueZero (JArr _) b = False"
| "sameValueZero (JObj _) b = False"
| "sameValueZero a b = (a = b)"

text \<open>\<^verbatim>\<open>d.includes(x)\<close>: a method of strings and of arrays only.\<close>

fun includesOf :: "(rat \<Rightarrow> string) \<Rightarrow> jv \<Rightarrow> jv \<Rightarrow> exn + bool" where
  "includesOf nts (JStr s) x = Inr (includesStr s (toStr nts x))"
| "includesOf nts (JArr xs) x = Inr (list_ex (\<lambda>y. sameValueZero x y) xs)"
| "includesOf nts _ x = Inl TypeError"

text \<open>The branch of the handler for a response of status 404 with a body.\<close>

definition notFound :: "'a env_scheme \<Rightarrow> jv \<Rightarrow> jv \<Rightarrow> jv \<Rightarrow> outcome" where
  "notFound E entityName typeInformation body =
     (case getErrorField E body of
        Inl e \<Rightarrow> Uncaught e
      | Inr errorField \<Rightarrow>
         (case getProp errorField ''details'' of
            Inl e \<Rightarrow> Uncaught e
          | Inr details \<Rightarrow>
             (case getProp typeInformation ''type'' of
                Inl e \<Rightarrow> Uncaught e
              | Inr ty \<Rightarrow>
                 (case includesOf (numToString E) details ty of
                    Inl e \<Rightarrow> Uncaught e
                  | Inr True \<Rightarrow> Failure (DeviceNotFound entityName)
                  | Inr False \<Rightarrow>
                     (case getProp errorField ''code'' of
                        Inl e \<Rightarrow> Uncaught e
                      | Inr code \<Rightarrow>
                         if truthy code \<and> code = JStr ''404''
                         then Failure AttributeNotFound
                         else Failure (EntityGenericError entityName ty body JUndef))))))"

text \<open>The last branch of the handler: any other status or body.\<close>

definition unknownError :: "'a env_scheme \<Rightarrow> jv \<Rightarrow> jv \<Rightarrow> jv \<Rightarrow> jv \<Rightarrow> outcome" where
  "unknownError E entityName typeInformation response body =
     (case (case body of
              JArr xs \<Rightarrow> Inr body
            | JObj kvs \<Rightarrow> Inr body
            | _ \<Rightarrow> jsonParse E (toStr (numToString E) body)) of
        Inl e \<Rightarrow> Uncaught e
      | Inr body' \<Rightarrow>
         (case getProp typeInformation ''type'' of
            Inl e \<Rightarrow> Uncaught e
          | Inr ty \<Rightarrow>
             (case getProp response ''statusCode'' of
                Inl e \<Rightarrow> Uncaught e
              | Inr status \<Rightarrow> Failure (EntityGenericError entityName ty body' status))))"

definition accessForbidden :: "jv \<Rightarrow> jv \<Rightarrow> outcome" where
  "accessForbidden token options =
     (case getProp options ''headers'' of
        Inl e \<Rightarrow> Uncaught e
      | Inr headers \<Rightarrow>
         (case getProp headers ''fiware-service'' of
            Inl e \<Rightarrow> Uncaught e
          | Inr service \<Rightarrow>
             (case getProp headers ''fiware-servicepath'' of
                Inl e \<Rightarrow> Uncaught e
              | Inr subservice \<Rightarrow> Failure (AccessForbidden token service subservice))))"

text \<open>
  The function that \<^verbatim>\<open>generateNGSILDOperationHandler\<close> returns, applied to the
  error, the response and the body of an exchange: what it hands to its callback,
  and the state of the alarm afterwards.
\<close>

definition generateNGSILDOperationHandler ::
  "'a env_scheme \<Rightarrow> string \<Rightarrow> jv \<Rightarrow> jv \<Rightarrow> jv \<Rightarrow> jv \<Rightarrow> jv \<times> jv \<times> jv \<Rightarrow> world
     \<Rightarrow> outcome \<times> world" where
  "generateNGSILDOperationHandler E operationName entityName typeInformation token options reply w =
     (case reply of (error, response, body) \<Rightarrow>
        if truthy error then (Failure (Other error), raise w)
        else if truthy body \<and> (case getProp body ''orionError'' of
                                   Inl e \<Rightarrow> False | Inr oe \<Rightarrow> truthy oe) then
          (case getProp body ''orionError'' of
             Inl e \<Rightarrow> (Uncaught e, w)
           | Inr oe \<Rightarrow>
              (case getProp oe ''details'' of
                 Inl e \<Rightarrow> (Uncaught e, w)
               | Inr details \<Rightarrow> (Failure (BadRequest details), w)))
        else if truthy response \<and> operationName = ''update'' \<and> statusIs response 204 then
          (Success body, release w)
        else if truthy response \<and> operationName = ''query'' \<and> body \<noteq> JUndef
                \<and> statusIs response 200 then
          (Success body, release w)
        else if truthy response \<and> operationName = ''query'' \<and> statusIs response 204 then
          (case getProp response ''statusCode'' of
             Inl e \<Rightarrow> (Uncaught e, w)
           | Inr status \<Rightarrow> (Failure (BadAnswer status operationName), w))
        else if truthy response \<and> (statusIs response 403 \<or> statusIs response 401) then
          (accessForbidden token options, w)
        else if truthy response \<and> truthy body \<and> statusIs response 404 then
          (notFound E entityName typeInformation body, w)
        else (unknownError E entityName typeInformation response body, w))"

text \<open>
  \<^verbatim>\<open>request(options, handler)\<close>: the request is issued, the transport answers, the
  handler classifies the answer.
\<close>

definition exchange ::
  "'a env_scheme \<Rightarrow> string \<Rightarrow> jv \<Rightarrow> jv \<Rightarrow> jv \<Rightarrow> jv \<Rightarrow> world \<Rightarrow> outcome \<times> world" where
  "exchange E operationName entityName typeInformation token options w =
     generateNGSILDOperationHandler E operationName entityName typeInformation token options
       (transport E (sent w) options) (w\<lparr>sent := sent w @ [options]\<rparr>)"

section \<open>Query\<close>

text \<open>
  \<^verbatim>\<open>sendQueryValueNgsiLD\<close>. The list of attribute names is an array or absent,
  as the documentation of the function has it.
\<close>

definition sendQueryValueNgsiLD ::
  "'a env_scheme \<Rightarrow> jv \<Rightarrow> jv list option \<Rightarrow> jv \<Rightarrow> jv \<Rightarrow> world \<Rightarrow> outcome \<times> world" where
  "sendQueryValueNgsiLD E entityName attributes typeInformation token w =
     (case getProp typeInformation ''type'' of
        Inl e \<Rightarrow> (Uncaught e, w)
      | Inr ty \<Rightarrow>
         let nts = numToString E;
             url = ''/ngsi-ld/v1/entities/urn:ngsi-ld:'' @ toStr nts ty @ '':'' @ toStr nts entityName;
             url' = (case attributes of
                       None \<Rightarrow> url
                     | Some xs \<Rightarrow>
                         if length xs > 0
                         then url @ ''?attrs='' @ joinWith '','' (map (toStrElem nts) xs)
                         else url)
         in (case createRequestObject E url' typeInformation token of
               Inl e \<Rightarrow> (Uncaught e, w)
             | Inr created \<Rightarrow>
                let options = JObj (setProp (setProp created ''method'' (JStr ''GET''))
                                      ''json'' (JBool True))
                in if \<not> truthy typeInformation \<or> \<not> truthy ty
                   then (Failure (TypeNotFound JNull entityName), w)
                   else
                     (case exchange E ''query'' entityName typeInformation token options w of
                        (Success result, w') \<Rightarrow>
                           (case queryMiddleware E result typeInformation of
                              (error, r) \<Rightarrow>
                                if truthy error then (Failure (Other error), w')
                                else (Success r, w'))
                      | (out, w') \<Rightarrow> (out, w'))))"

section \<open>Update\<close>

definition delKey :: "jv \<Rightarrow> string \<Rightarrow> jv" where
  "delKey v k = (case v of JObj kvs \<Rightarrow> JObj (delProp kvs k) | _ \<Rightarrow> v)"

text \<open>
  \<^verbatim>\<open>v[k] = x\<close> for a name \<open>k\<close> that is not an index. An array that is given
  a named property goes on as the object of its entries; a primitive value keeps
  no property.
\<close>

definition setKey :: "jv \<Rightarrow> string \<Rightarrow> jv \<Rightarrow> exn + jv" where
  "setKey v k x =
     (case v of
        JUndef \<Rightarrow> Inl TypeError
      | JNull \<Rightarrow> Inl TypeError
      | JObj kvs \<Rightarrow> Inr (JObj (setProp kvs k x))
      | JArr xs \<Rightarrow> Inr (JObj (setProp (entries v) k x))
      | _ \<Rightarrow> Inr v)"

text \<open>The loop over \<^verbatim>\<open>attributes\<close> that fills the payload.\<close>

fun buildPayload ::
  "'a env_scheme \<Rightarrow> jv \<Rightarrow> jv list \<Rightarrow> (string \<times> jv) list \<Rightarrow> outcome + (string \<times> jv) list" where
  "buildPayload E typeInformation [] payload = Inr payload"
| "buildPayload E typeInformation (a # rest) payload =
     (case getProp a ''name'' of
        Inl e \<Rightarrow> Inl (Uncaught e)
      | Inr name \<Rightarrow>
         (case getProp a ''type'' of
            Inl e \<Rightarrow> Inl (Uncaught e)
          | Inr ty \<Rightarrow>
             (case getProp a ''value'' of
                Inl e \<Rightarrow> Inl (Uncaught e)
              | Inr v \<Rightarrow>
                 (case getProp a ''metadata'' of
                    Inl e \<Rightarrow> Inl (Uncaught e)
                  | Inr md \<Rightarrow>
                     if truthy name \<and> truthy ty then
                       let metadata = getMetaData E typeInformation name md;
                           props = [(''value'', v), (''type'', ty)]
                                   @ (if truthy metadata then [(''metadata'', metadata)] else [])
                       in buildPayload E typeInformation rest
                            (setProp payload (toStr (numToString E) name) (JObj props))
                     else Inl (Failure (BadRequest JNull))))))"

text \<open>\<^verbatim>\<open>k in v\<close>.\<close>

definition hasKey :: "jv \<Rightarrow> string \<Rightarrow> exn + bool" where
  "hasKey v k =
     (case v of
        JObj kvs \<Rightarrow> Inr (k \<in> fst ` set kvs)
      | JArr xs \<Rightarrow> Inr (k = ''length'' \<or> (case indexOf k of None \<Rightarrow> False | Some i \<Rightarrow> i < length xs))
      | _ \<Rightarrow> Inl TypeError)"

text \<open>
  The timestamp policy:
  \<^verbatim>\<open>'timestamp' in typeInformation && typeInformation.timestamp !== undefined ?
  typeInformation.timestamp : config.getConfig().timestamp\<close>.
\<close>

definition timestampPolicy :: "'a env_scheme \<Rightarrow> jv \<Rightarrow> exn + bool" where
  "timestampPolicy E typeInformation =
     (case hasKey typeInformation ''timestamp'' of
        Inl e \<Rightarrow> Inl e
      | Inr present \<Rightarrow>
         (case getProp typeInformation ''timestamp'' of
            Inl e \<Rightarrow> Inl e
          | Inr ts \<Rightarrow> Inr (truthy (if present \<and> ts \<noteq> JUndef then ts else configTimestamp E))))"

text \<open>
  The timestamp of a result of the middlewares: added where the policy asks for
  it and the payload has none, checked where the payload has one.
\<close>

definition timestamped :: "'a env_scheme \<Rightarrow> jv \<Rightarrow> jv \<Rightarrow> outcome + jv" where
  "timestamped E typeInformation json =
     (case timestampPolicy E typeInformation of
        Inl e \<Rightarrow> Inl (Uncaught e)
      | Inr policy \<Rightarrow>
         if policy then
           (if \<not> isTimestampedNgsi2 E json then
              (case getProp typeInformation ''timezone'' of
                 Inl e \<Rightarrow> Inl (Uncaught e)
               | Inr tz \<Rightarrow> Inr (addTimestamp E json tz))
            else if \<not> IsValidTimestampedNgsi2 E json then Inl (Failure (BadTimestamp json))
            else Inr json)
         else Inr json)"

definition isArray :: "jv \<Rightarrow> bool" where
  "isArray v = (case v of JArr xs \<Rightarrow> True | _ \<Rightarrow> False)"

text \<open>
  The value of \<^verbatim>\<open>json\<close> before the purge, from the payload and the result of the
  middlewares.
\<close>

definition selectJson :: "'a env_scheme \<Rightarrow> jv \<Rightarrow> jv \<Rightarrow> jv \<Rightarrow> outcome + jv" where
  "selectJson E typeInformation payload result =
     (if truthy result then
        (if isArray result then timestamped E typeInformation result
         else timestamped E typeInformation (delKey (delKey result ''id'') ''type''))
      else Inr (delKey (delKey payload ''id'') ''type''))"

subsection \<open>The purge of the internal keys\<close>

definition lookupKey :: "(string \<times> jv) list \<Rightarrow> string \<Rightarrow> jv" where
  "lookupKey kvs k = (case map_of kvs k of None \<Rightarrow> JUndef | Some v \<Rightarrow> v)"

text \<open>
  The two deletions on one attribute \<^verbatim>\<open>json[entity][att]\<close>: a key is deleted
  where its value is truthy.
\<close>

definition purgeAttr :: "jv \<Rightarrow> exn + jv" where
  "purgeAttr a =
     (case a of
        JUndef \<Rightarrow> Inl TypeError
      | JNull \<Rightarrow> Inl TypeError
      | JObj kvs \<Rightarrow>
          let k1 = (if truthy (lookupKey kvs ''object_id'') then delProp kvs ''object_id'' else kvs);
              k2 = (if truthy (lookupKey k1 ''multi'') then delProp k1 ''multi'' else k1)
          in Inr (JObj k2)
      | _ \<Rightarrow> Inr a)"

fun purgeAttrs :: "(string \<times> jv) list \<Rightarrow> exn + (string \<times> jv) list" where
  "purgeAttrs [] = Inr []"
| "purgeAttrs ((k, a) # rest) =
     (case purgeAttr a of
        Inl e \<Rightarrow> Inl e
      | Inr a' \<Rightarrow> (case purgeAttrs rest of Inl e \<Rightarrow> Inl e | Inr rest' \<Rightarrow> Inr ((k, a') # rest')))"

fun purgeElems :: "jv list \<Rightarrow> exn + jv list" where
  "purgeElems [] = Inr []"
| "purgeElems (a # rest) =
     (case purgeAttr a of
        Inl e \<Rightarrow> Inl e
      | Inr a' \<Rightarrow> (case purgeElems rest of Inl e \<Rightarrow> Inl e | Inr rest' \<Rightarrow> Inr (a' # rest')))"

text \<open>
  \<^verbatim>\<open>for (att in json[entity])\<close> with its body. Nothing is visited in
  \<^verbatim>\<open>undefined\<close>, \<^verbatim>\<open>null\<close>, a number or a boolean, and the characters of a
  string have neither key.
\<close>

definition purgeEntity :: "jv \<Rightarrow> exn + jv" where
  "purgeEntity ent =
     (case ent of
        JObj kvs \<Rightarrow> (case purgeAttrs kvs of Inl e \<Rightarrow> Inl e | Inr kvs' \<Rightarrow> Inr (JObj kvs'))
      | JArr xs \<Rightarrow> (case purgeElems xs of Inl e \<Rightarrow> Inl e | Inr xs' \<Rightarrow> Inr (JArr xs'))
      | _ \<Rightarrow> Inr ent)"

fun purgeEntities :: "jv list \<Rightarrow> exn + jv list" where
  "purgeEntities [] = Inr []"
| "purgeEntities (ent # rest) =
     (case purgeEntity ent of
        Inl e \<Rightarrow> Inl e
      | Inr ent' \<Rightarrow>
         (case purgeEntities rest of Inl e \<Rightarrow> Inl e | Inr rest' \<Rightarrow> Inr (ent' # rest')))"

text \<open>The number a value converts to in \<^verbatim>\<open>entity < json.length\<close>.\<close>

definition toNumber :: "'a env_scheme \<Rightarrow> jv \<Rightarrow> jsnum" where
  "toNumber E v =
     (case v of
        JUndef \<Rightarrow> NaN
      | JNull \<Rightarrow> Fin 0
      | JBool b \<Rightarrow> Fin (if b then 1 else 0)
      | JNum n \<Rightarrow> n
      | JStr s \<Rightarrow> strToNumber E s
      | JArr xs \<Rightarrow> strToNumber E (toStr (numToString E) v)
      | JObj kvs \<Rightarrow> NaN)"

text \<open>
  The loop \<^verbatim>\<open>for (entity = 0; entity < json.length; entity++)\<close> on an object:
  \<^verbatim>\<open>json[entity]\<close> is the property whose name is the index.
\<close>

fun purgeIndexed :: "(string \<times> jv) list \<Rightarrow> nat list \<Rightarrow> exn + (string \<times> jv) list" where
  "purgeIndexed kvs [] = Inr kvs"
| "purgeIndexed kvs (i # rest) =
     (case map_of kvs (showNat i) of
        None \<Rightarrow> purgeIndexed kvs rest
      | Some ent \<Rightarrow>
         (case purgeEntity ent of
            Inl e \<Rightarrow> Inl e
          | Inr ent' \<Rightarrow> purgeIndexed (setProp kvs (showNat i) ent') rest))"

text \<open>An index beyond every property of the object whose name is an index.\<close>

definition indexBound :: "(string \<times> jv) list \<Rightarrow> nat" where
  "indexBound kvs =
     foldr (\<lambda>kv m. case indexOf (fst kv) of None \<Rightarrow> m | Some i \<Rightarrow> max (Suc i) m) kvs 0"

text \<open>
  Lines 498 to 522. The test is \<^verbatim>\<open>if (json)\<close>, so the first loop runs for
  every truthy \<^verbatim>\<open>json\<close>, whatever its shape: over the entities of an array,
  and over an object as far as its own property \<^verbatim>\<open>length\<close> counts, which is
  not at all when it has none (with an infinite \<^verbatim>\<open>length\<close> the loop ends only
  by an exception). A string has characters for entities, a number or a boolean
  has no \<^verbatim>\<open>length\<close>. The second loop is reached with a falsy \<^verbatim>\<open>json\<close>
  only, in which \<^verbatim>\<open>for (att in json)\<close> visits nothing.
\<close>

definition purge :: "'a env_scheme \<Rightarrow> jv \<Rightarrow> outcome + jv" where
  "purge E json =
     (if truthy json then
        (case json of
           JArr xs \<Rightarrow>
             (case purgeEntities xs of Inl e \<Rightarrow> Inl (Uncaught e) | Inr xs' \<Rightarrow> Inr (JArr xs'))
         | JObj kvs \<Rightarrow>
             (case toNumber E (lookupKey kvs ''length'') of
                Fin r \<Rightarrow>
                  (case purgeIndexed kvs [0..<nat \<lceil>r\<rceil>] of
                     Inl e \<Rightarrow> Inl (Uncaught e)
                   | Inr kvs' \<Rightarrow> Inr (JObj kvs'))
              | PInf \<Rightarrow>
                  (case purgeIndexed kvs [0..<indexBound kvs] of
                     Inl e \<Rightarrow> Inl (Uncaught e)
                   | Inr kvs' \<Rightarrow> Inl Hangs)
              | _ \<Rightarrow> Inr json)
         | _ \<Rightarrow> Inr json)
      else Inr json)"

subsection \<open>Encoding and sending\<close>

fun formatAll :: "'a env_scheme \<Rightarrow> jv list \<Rightarrow> exn + jv list" where
  "formatAll E [] = Inr []"
| "formatAll E (x # xs) =
     (case formatAsNGSILD E x of
        Inl e \<Rightarrow> Inl e
      | Inr y \<Rightarrow> (case formatAll E xs of Inl e \<Rightarrow> Inl e | Inr ys \<Rightarrow> Inr (y # ys)))"

text \<open>
  The \<^verbatim>\<open>try\<close> block of lines 524 to 534; whatever is thrown in it becomes
  \<^verbatim>\<open>BadGeocoordinates\<close>. \<^verbatim>\<open>_.map\<close> runs over the elements of an array, the
  values of an object and the characters of a string.
\<close>

definition encode :: "'a env_scheme \<Rightarrow> jv \<Rightarrow> jv \<Rightarrow> jv \<Rightarrow> jv \<Rightarrow> outcome + jv list" where
  "encode E entityId typeInformation result json =
     (case (if isArray result then formatAll E (map snd (entries json))
            else
              (case setKey json ''id'' entityId of
                 Inl e \<Rightarrow> Inl e
               | Inr j1 \<Rightarrow>
                  (case getProp typeInformation ''type'' of
                     Inl e \<Rightarrow> Inl e
                   | Inr ty \<Rightarrow>
                      (case setKey j1 ''type'' ty of
                         Inl e \<Rightarrow> Inl e
                       | Inr j2 \<Rightarrow> formatAll E [j2])))) of
        Inl e \<Rightarrow> Inl (Failure BadGeocoordinates)
      | Inr ents \<Rightarrow> Inr ents)"

text \<open>
  One round of \<^verbatim>\<open>async.forEachSeries\<close>: the identifier of an entity and the
  request for it, or \<open>None\<close> where the entity is left out (nothing but
  \<^verbatim>\<open>@context\<close> remains). The address is that of the request object, a string,
  followed by the identifier and \<^verbatim>\<open>/attrs\<close>.
\<close>

definition requestFor ::
  "'a env_scheme \<Rightarrow> (string \<times> jv) list \<Rightarrow> jv \<Rightarrow> exn + (jv \<times> jv) option" where
  "requestFor E options entity =
     (case getProp entity ''id'' of
        Inl e \<Rightarrow> Inl e
      | Inr entityId \<Rightarrow>
         let entity' = delKey (delKey entity ''id'') ''type'' in
         if length (entries entity') \<le> 1 then Inr None
         else
           Inr (Some (entityId,
             JObj (setProp (setProp options ''json'' entity') ''url''
                 (JStr (toStr (numToString E) (lookupKey options ''url'')
                          @ toStr (numToString E) entityId @ ''/attrs''))))))"

text \<open>
  \<^verbatim>\<open>async.forEachSeries\<close> with the function of lines 539 to 565 and the final
  callback: the next entity is taken up when the callback of the one before is
  called without an error.
\<close>

fun sendSeries ::
  "'a env_scheme \<Rightarrow> jv \<Rightarrow> jv \<Rightarrow> (string \<times> jv) list \<Rightarrow> jv list \<Rightarrow> world \<Rightarrow> outcome \<times> world" where
  "sendSeries E typeInformation token options [] w = (Success JUndef, w)"
| "sendSeries E typeInformation token options (entity # rest) w =
     (case requestFor E options entity of
        Inl e \<Rightarrow> (Uncaught e, w)
      | Inr None \<Rightarrow> sendSeries E typeInformation token options rest w
      | Inr (Some (entityId, req)) \<Rightarrow>
         (case exchange E ''update'' entityId typeInformation token req w of
            (Success body, w') \<Rightarrow> sendSeries E typeInformation token options rest w'
          | (out, w') \<Rightarrow> (out, w')))"

text \<open>
  \<^verbatim>\<open>sendUpdateValueNgsiLD\<close>, whose attributes are an array, in parts: the
  request object of lines 412 to 415, built before anything is tested
  (\<open>updateOptions\<close>); lines 417 to 522, from
  the arguments to the result of the middlewares and to \<^verbatim>\<open>json\<close> after the
  purge, or to the way the call ends before that (\<open>prepared\<close>); with the
  \<^verbatim>\<open>try\<close> block, the entities to send (\<open>targetEntities\<close>); and the series of
  exchanges.
\<close>

definition updateOptions :: "'a env_scheme \<Rightarrow> jv \<Rightarrow> jv \<Rightarrow> exn + (string \<times> jv) list" where
  "updateOptions E typeInformation token =
     (case createRequestObject E ''/ngsi-ld/v1/entities/'' typeInformation token of
        Inl e \<Rightarrow> Inl e
      | Inr created \<Rightarrow> Inr (setProp created ''method'' (JStr ''PATCH'')))"

definition prepared :: "'a env_scheme \<Rightarrow> jv \<Rightarrow> jv list \<Rightarrow> jv \<Rightarrow> outcome + (jv \<times> jv)" where
  "prepared E entityId attributes typeInformation =
     (if \<not> truthy typeInformation then Inl (Failure (TypeNotFound JNull entityId))
      else
        (case getProp typeInformation ''type'' of
           Inl e \<Rightarrow> Inl (Uncaught e)
         | Inr ty \<Rightarrow>
            if \<not> truthy ty then Inl (Failure (TypeNotFound JNull entityId))
            else
              (case buildPayload E typeInformation attributes
                      [(''id'', entityId), (''type'', ty)] of
                 Inl out \<Rightarrow> Inl out
               | Inr p \<Rightarrow>
                  let payload = castJsonNativeAttributes E (JObj p) in
                  if truthy (statsAdd E) then Inl (Failure (Other (statsAdd E)))
                  else
                    (case updateMiddleware E payload typeInformation of
                       (error, result) \<Rightarrow>
                         if truthy error then Inl (Failure (Other error))
                         else
                           (case selectJson E typeInformation payload result of
                              Inl out \<Rightarrow> Inl out
                            | Inr json \<Rightarrow>
                               (case purge E json of
                                  Inl out \<Rightarrow> Inl out
                                | Inr json' \<Rightarrow> Inr (result, json')))))))"

definition targetEntities :: "'a env_scheme \<Rightarrow> jv \<Rightarrow> jv list \<Rightarrow> jv \<Rightarrow> outcome + jv list" where
  "targetEntities E entityId attributes typeInformation =
     (case prepared E entityId attributes typeInformation of
        Inl out \<Rightarrow> Inl out
      | Inr (result, json) \<Rightarrow> encode E entityId typeInformation result json)"

definition sendUpdateValueNgsiLD ::
  "'a env_scheme \<Rightarrow> jv \<Rightarrow> jv list \<Rightarrow> jv \<Rightarrow> jv \<Rightarrow> world \<Rightarrow> outcome \<times> world" where
  "sendUpdateValueNgsiLD E entityId attributes typeInformation token w =
     (case updateOptions E typeInformation token of
        Inl e \<Rightarrow> (Uncaught e, w)
      | Inr options \<Rightarrow>
         (case targetEntities E entityId attributes typeInformation of
            Inl out \<Rightarrow> (out, w)
          | Inr ents \<Rightarrow> sendSeries E typeInformation token options ents w))"

section \<open>Notions used in the statements\<close>




text \<open>
  The test of the second branch of the handler, \<^verbatim>\<open>body && body.orionError\<close>.
\<close>

definition hasOrionError :: "jv \<Rightarrow> bool" where
  "hasOrionError body =
     (truthy body \<and> (case getProp body ''orionError'' of Inl e \<Rightarrow> False | Inr oe \<Rightarrow> truthy oe))"

text \<open>The alarm after a series of exchanges, given by the answers of the transport.\<close>

fun afterReplies ::
  "'a env_scheme \<Rightarrow> string \<Rightarrow> jv \<Rightarrow> jv \<Rightarrow> jv \<Rightarrow> jv \<Rightarrow> (jv \<times> jv \<times> jv) list \<Rightarrow> world \<Rightarrow> world" where
  "afterReplies E operationName entityName typeInformation token options [] w = w"
| "afterReplies E operationName entityName typeInformation token options (reply # rest) w =
     afterReplies E operationName entityName typeInformation token options rest
       (snd (generateNGSILDOperationHandler E operationName entityName typeInformation token
               options reply w))"

text \<open>
  The requests of a list of entities, in order: one for each entity that is not
  left out.
\<close>

definition requestsOf :: "'a env_scheme \<Rightarrow> (string \<times> jv) list \<Rightarrow> jv list \<Rightarrow> jv list" where
  "requestsOf E options ents =
     concat (map (\<lambda>entity. case requestFor E options entity of
                              Inr (Some (entityId, req)) \<Rightarrow> [req] | _ \<Rightarrow> []) ents)"

text \<open>
  The case labels of the switch whose branch calls \<^verbatim>\<open>getLngLats\<close>.
\<close>

definition checkedGeoTypes :: "string list" where
  "checkedGeoTypes =
     [''geoproperty'', ''point'', ''geo:point'', ''linestring'', ''geo:linestring'',
      ''polygon'', ''geo:polygon'', ''multipoint'', ''geo:multipoint'']"


section \<open>An environment for the examples\<close>

text \<open>\<open>sampleNumToString\<close> prints the integer part of a number.\<close>

definition sampleNumToString :: "rat \<Rightarrow> string" where
  "sampleNumToString r = (if r < 0 then ''-'' else []) @ showNat (nat \<lfloor>\<bar>r\<bar>\<rfloor>)"

text \<open>
  \<open>sampleTransport\<close>: the broker answers 204 with no body, except to the second
  request, which fails in the transport.
\<close>

definition sampleTransport :: "jv list \<Rightarrow> jv \<Rightarrow> jv \<times> jv \<times> jv" where
  "sampleTransport earlier req =
     (if length earlier = 1 then (JStr ''ECONNREFUSED'', JUndef, JUndef)
      else (JNull, JObj [(''statusCode'', JNum (Fin 204))], JUndef))"

text \<open>
  \<open>sampleIsFloat\<close> throws on \<^verbatim>\<open>null\<close>, of which no method can be called, and
  tells a number written with a point. \<open>sampleCreateRequestObject\<close> throws when
  there is no \<^verbatim>\<open>typeInformation\<close>.
\<close>

definition sampleIsFloat :: "jv \<Rightarrow> exn + bool" where
  "sampleIsFloat v =
     (case v of
        JNull \<Rightarrow> Inl TypeError
      | JStr s \<Rightarrow> Inr (CHR ''.'' \<in> set s \<and> \<not> isNaN (parseFloatStr s))
      | JNum (Fin r) \<Rightarrow> Inr (of_int \<lfloor>r\<rfloor> \<noteq> r)
      | _ \<Rightarrow> Inr False)"

definition sampleCreateRequestObject :: "string \<Rightarrow> jv \<Rightarrow> jv \<Rightarrow> exn + (string \<times> jv) list" where
  "sampleCreateRequestObject url t token =
     (if truthy t then
        Inr [(''url'', JStr (''http://broker'' @ url)), (''method'', JStr ''POST''),
             (''headers'', JObj [(''fiware-service'', JStr ''smart''),
                                 (''fiware-servicepath'', JStr ''/gardens'')])]
      else Inl TypeError)"

definition sampleEnv :: env where
  "sampleEnv = \<lparr> numToString = sampleNumToString, isFloat = sampleIsFloat,
     momentIsValid = (\<lambda>v. v \<noteq> JStr ''bad''),
     momentISO = (\<lambda>v. v), momentDate = (\<lambda>v. v), momentTime = (\<lambda>v. v),
     TIMESTAMP_ATTRIBUTE = ''TimeInstant'', ATTRIBUTE_DEFAULT = '' '',
     DATETIME_DEFAULT = ''1970-01-01T00:00:00.000Z'', jsonLdContext = ''http://context'',
     configTimestamp = JUndef,
     strToNumber = parseFloatStr,
     jsonParse = (\<lambda>s. Inl SyntaxError),
     getErrorField = (\<lambda>body. getProp body ''errorCode''),
     getMetaData = (\<lambda>t n m. m),
     castJsonNativeAttributes = (\<lambda>p. p),
     createRequestObject = sampleCreateRequestObject,
     statsAdd = JNull,
     updateMiddleware = (\<lambda>p t. (JNull, p)),
     queryMiddleware = (\<lambda>r t. (JNull, r)),
     isTimestampedNgsi2 = (\<lambda>p. True),
     IsValidTimestampedNgsi2 = (\<lambda>p. True),
     addTimestamp = (\<lambda>p tz. p),
     transport = sampleTransport \<rparr>"

text \<open>
  Three entities, as the multi-entity plugin hands them on, with the envelope and
  the request of each; in \<open>sampleEnv3\<close> they are the result of the update
  middlewares.
\<close>

definition sampleEntity :: "string \<Rightarrow> string \<Rightarrow> jv" where
  "sampleEntity i v =
     JObj [(''id'', JStr i), (''type'', JStr ''Sensor''),
           (''t'', JObj [(''type'', JStr ''float''), (''value'', JStr v)])]"

definition sampleEnvelope :: "string \<Rightarrow> rat \<Rightarrow> jv" where
  "sampleEnvelope i r =
     JObj [(''@context'', JArr [JStr ''http://context'']),
           (''id'', JStr (''urn:ngsi-ld:Sensor:'' @ i)), (''type'', JStr ''Sensor''),
           (''t'', JObj [(''type'', JStr ''Property''), (''value'', JNum (Fin r))])]"

definition sampleRequest :: "string \<Rightarrow> rat \<Rightarrow> jv" where
  "sampleRequest i r =
     JObj [(''url'', JStr (''http://broker/ngsi-ld/v1/entities/urn:ngsi-ld:Sensor:'' @ i @ ''/attrs'')),
           (''method'', JStr ''PATCH''),
           (''headers'', JObj [(''fiware-service'', JStr ''smart''),
                               (''fiware-servicepath'', JStr ''/gardens'')]),
           (''json'', JObj [(''@context'', JArr [JStr ''http://context'']),
                            (''t'', JObj [(''type'', JStr ''Property''), (''value'', JNum (Fin r))])])]"

definition sampleEnv3 :: env where
  "sampleEnv3 = sampleEnv\<lparr>updateMiddleware := (\<lambda>p t.
      (JNull, JArr [sampleEntity ''a'' ''1'', sampleEntity ''b'' ''2'', sampleEntity ''c'' ''3'']))\<rparr>"

text \<open>
  In \<open>sampleEnvOid\<close> the update middlewares hand on one entity whose attribute
  carries the internal key.
\<close>

definition sampleEnvOid :: env where
  "sampleEnvOid = sampleEnv\<lparr>updateMiddleware := (\<lambda>p t.
      (JNull, JObj [(''id'', JStr ''s1''), (''type'', JStr ''Sensor''),
                    (''t'', JObj [(''type'', JStr ''float''), (''value'', JStr ''1''),
                                  (''object_id'', JStr ''t1'')])]))\<rparr>"


section \<open>Properties of the attribute conversion\<close>

lemma getLngLats_sample:
  "getLngLats nts (JStr ''40.4,-3.7'') = Inr (JArr [JNum (Fin 40.4), JNum (Fin (- 3.7))])"
  by (simp add: getLngLats_def splitStr_def parseFloatStr_def isSpace_def isDigit_def
      digitsVal_def digitVal_def scale10_def toDouble_def)

lemma convert_no_metadata:
  assumes "getProp attr ''value'' = Inr v" and "getProp attr ''type'' = Inr (JStr ty)"
    and "getProp attr ''metadata'' = Inr m" and "\<not> truthy m"
  shows "convertNGSIv2ToLD E attr =
           (case castByType E ty v of Inl e \<Rightarrow> Inl e | Inr obj \<Rightarrow> Inr (JObj obj))"
  using assms by (simp add: convertNGSIv2ToLD.simps split: sum.splits)

lemma lower_geo_point: "toLowerCase ''geo:point'' = ''geo:point''"
  by (simp add: toLowerCase_def lowerChar_def)

lemma lower_Geo_Point: "toLowerCase ''Geo:Point'' = ''geo:point''"
  by code_simp

text \<open>
  C3, as the code has it. For an attribute declared \<^verbatim>\<open>point\<close> or \<^verbatim>\<open>geo:point\<close>
  (in any letter case) with the value \<^verbatim>\<open>"40.4,-3.7"\<close>, the type switch yields a
  GeoProperty of GeoJSON type Point whose coordinates are \<^verbatim>\<open>[40.4, -3.7]\<close>: the two
  numbers in the order of the input, latitude first. When the attribute has no
  metadata this is the whole result of \<^verbatim>\<open>convertNGSIv2ToLD\<close>.
\<close>

theorem geo_point_keeps_input_order:
  assumes "toLowerCase ty = ''point'' \<or> toLowerCase ty = ''geo:point''"
  shows "castByType E ty (JStr ''40.4,-3.7'') =
           Inr (geoProperty ''Point'' (JArr [JNum (Fin 40.4), JNum (Fin (- 3.7))]))
       \<and> (getProp attr ''type'' = Inr (JStr ty) \<and>
          getProp attr ''value'' = Inr (JStr ''40.4,-3.7'') \<and>
          getProp attr ''metadata'' = Inr m \<and> \<not> truthy m \<longrightarrow>
          convertNGSIv2ToLD E attr =
            Inr (JObj (geoProperty ''Point'' (JArr [JNum (Fin 40.4), JNum (Fin (- 3.7))]))))"
proof -
  have c: "castByType E ty (JStr ''40.4,-3.7'') =
           Inr (geoProperty ''Point'' (JArr [JNum (Fin 40.4), JNum (Fin (- 3.7))]))"
    using assms by (auto simp: castByType_def getLngLats_sample geoWith_def)
  show ?thesis
  proof (intro conjI impI)
    show "castByType E ty (JStr ''40.4,-3.7'') =
           Inr (geoProperty ''Point'' (JArr [JNum (Fin 40.4), JNum (Fin (- 3.7))]))"
      by (rule c)
  next
    assume "getProp attr ''type'' = Inr (JStr ty) \<and>
          getProp attr ''value'' = Inr (JStr ''40.4,-3.7'') \<and>
          getProp attr ''metadata'' = Inr m \<and> \<not> truthy m"
    then show "convertNGSIv2ToLD E attr =
           Inr (JObj (geoProperty ''Point'' (JArr [JNum (Fin 40.4), JNum (Fin (- 3.7))])))"
      using convert_no_metadata [of attr "JStr ''40.4,-3.7''" ty m E] c by simp
  qed
qed

theorem geo_point_keeps_input_order_witness:
  "toLowerCase ''Geo:Point'' = ''geo:point''
   \<and> castByType sampleEnv ''Geo:Point'' (JStr ''40.4,-3.7'') =
       Inr (geoProperty ''Point'' (JArr [JNum (Fin 40.4), JNum (Fin (- 3.7))]))
   \<and> convertNGSIv2ToLD sampleEnv
       (JObj [(''type'', JStr ''Geo:Point''), (''value'', JStr ''40.4,-3.7'')]) =
       Inr (JObj (geoProperty ''Point'' (JArr [JNum (Fin 40.4), JNum (Fin (- 3.7))])))"
  using geo_point_keeps_input_order [of "''Geo:Point''" sampleEnv
      "JObj [(''type'', JStr ''Geo:Point''), (''value'', JStr ''40.4,-3.7'')]" JUndef]
  by (simp add: lower_Geo_Point)

text \<open>
  C3, as the specification states it, fails: the coordinates are not
  \<^verbatim>\<open>[-3.7, 40.4]\<close>.
\<close>

theorem geo_point_order_counterexample:
  "convertNGSIv2ToLD sampleEnv
     (JObj [(''type'', JStr ''geo:point''), (''value'', JStr ''40.4,-3.7'')])
   \<noteq> Inr (JObj (geoProperty ''Point'' (JArr [JNum (Fin (- 3.7)), JNum (Fin 40.4)])))"
  by (simp add: convertNGSIv2ToLD.simps castByType_def lower_geo_point getLngLats_sample
      geoWith_def geoProperty_def)










section \<open>Timestamps\<close>


lemma keys_replaceProp:
  "k \<in> fst ` set kvs \<Longrightarrow> fst ` set (replaceProp kvs k v) = fst ` set kvs"
proof (induction kvs)
  case Nil
  then show ?case by simp
next
  case (Cons kv kvs)
  obtain k' v' where kv: "kv = (k', v')" by (cases kv)
  show ?case
  proof (cases "k' = k")
    case True
    then show ?thesis using kv by simp
  next
    case False
    with Cons.prems kv have "k \<in> fst ` set kvs" by auto
    from Cons.IH [OF this] False kv show ?thesis by simp
  qed
qed

lemma replaceProp_keeps_other:
  "(k, a) \<in> set kvs \<Longrightarrow> k \<noteq> k' \<Longrightarrow> (k, a) \<in> set (replaceProp kvs k' x)"
  by (induction kvs) auto

lemma set_insertIndexed: "set (insertIndexed i kv kvs) = insert kv (set kvs)"
  by (induction kvs) (auto split: option.splits)




lemma keys_setProp: "fst ` set (setProp kvs k v) = insert k (fst ` set kvs)"
  by (auto simp: setProp_def keys_replaceProp set_insertIndexed split: option.split)

lemma setProp_keeps_other: "(k, a) \<in> set kvs \<Longrightarrow> k \<noteq> k' \<Longrightarrow> (k, a) \<in> set (setProp kvs k' x)"
  by (simp add: setProp_def replaceProp_keeps_other set_insertIndexed split: option.split)

text \<open>A name that is not an index is added at the end.\<close>

lemma setProp_named:
  "arrayIndex k = None \<Longrightarrow>
   setProp kvs k v = (if k \<in> fst ` set kvs then replaceProp kvs k v else kvs @ [(k, v)])"
  by (simp add: setProp_def)

lemma arrayIndex_names:
  "arrayIndex ''observedAt'' = None" "arrayIndex ''unitCode'' = None"
  "arrayIndex ''id'' = None" "arrayIndex ''type'' = None"
  by (simp_all add: arrayIndex_def indexOf_def isDigit_def)


lemma keys_delProp: "fst ` set (delProp kvs k) = fst ` set kvs - {k}"
  by (auto simp: delProp_def)







lemma sampleEnv_fields:
  "TIMESTAMP_ATTRIBUTE sampleEnv = ''TimeInstant''"
  "ATTRIBUTE_DEFAULT sampleEnv = '' ''"
  "DATETIME_DEFAULT sampleEnv = ''1970-01-01T00:00:00.000Z''"
  "jsonLdContext sampleEnv = ''http://context''"
  "momentIsValid sampleEnv = (\<lambda>v. v \<noteq> JStr ''bad'')"
  "momentISO sampleEnv = (\<lambda>v. v)"
  "numToString sampleEnv = sampleNumToString"
  by (simp_all add: sampleEnv_def)







section \<open>Properties of the handler\<close>

lemma statusIs_truthy: "statusIs response n \<Longrightarrow> truthy response"
  by (cases response) (auto simp: statusIs_def split: if_splits option.splits)

lemma statusIs_unique: "statusIs response n \<Longrightarrow> statusIs response m \<Longrightarrow> n = m"
  by (simp add: statusIs_def)

lemma handler_success_releases:
  "generateNGSILDOperationHandler E operationName entityName typeInformation token options reply w
     = (Success b, w') \<Longrightarrow> w' = release w"
  by (auto simp: generateNGSILDOperationHandler_def accessForbidden_def notFound_def
      unknownError_def split: prod.splits if_splits sum.splits bool.splits jv.splits)

lemma afterReplies_append:
  "afterReplies E operationName entityName typeInformation token options (xs @ ys) w =
   afterReplies E operationName entityName typeInformation token options ys
     (afterReplies E operationName entityName typeInformation token options xs w)"
  by (induction xs arbitrary: w) simp_all

text \<open>
  C4, as the code has it. In every exchange, update or query, an error of the
  transport raises the alarm and is handed to the caller as it is. Without such an
  error and without a broker error (\<^verbatim>\<open>orionError\<close>) in the body, an update
  answered with status 204 and a query answered with status 200 and a body
  release the alarm. And whatever exchanges went before, the alarm is released
  after an exchange that succeeds.
\<close>

theorem alarm_raised_and_released:
  "(truthy error \<longrightarrow>
      generateNGSILDOperationHandler E operationName entityName typeInformation token options
        (error, response, body) w = (Failure (Other error), raise w))
   \<and> (\<not> truthy error \<and> \<not> hasOrionError body \<and> statusIs response 204 \<longrightarrow>
      generateNGSILDOperationHandler E ''update'' entityName typeInformation token options
        (error, response, body) w = (Success body, release w))
   \<and> (\<not> truthy error \<and> \<not> hasOrionError body \<and> body \<noteq> JUndef \<and> statusIs response 200 \<longrightarrow>
      generateNGSILDOperationHandler E ''query'' entityName typeInformation token options
        (error, response, body) w = (Success body, release w))
   \<and> alarm (raise w) \<and> \<not> alarm (release w)
   \<and> (fst (generateNGSILDOperationHandler E operationName entityName typeInformation token
              options reply
              (afterReplies E operationName entityName typeInformation token options earlier w))
         = Success b \<longrightarrow>
      \<not> alarm (afterReplies E operationName entityName typeInformation token options
                 (earlier @ [reply]) w))"
proof (intro conjI impI)
  assume "truthy error"
  then show "generateNGSILDOperationHandler E operationName entityName typeInformation token
      options (error, response, body) w = (Failure (Other error), raise w)"
    by (simp add: generateNGSILDOperationHandler_def)
next
  assume a: "\<not> truthy error \<and> \<not> hasOrionError body \<and> statusIs response 204"
  then have "truthy response" using statusIs_truthy by blast
  with a show "generateNGSILDOperationHandler E ''update'' entityName typeInformation token
      options (error, response, body) w = (Success body, release w)"
    by (auto simp: generateNGSILDOperationHandler_def hasOrionError_def split: sum.splits)
next
  assume a: "\<not> truthy error \<and> \<not> hasOrionError body \<and> body \<noteq> JUndef \<and> statusIs response 200"
  then have "truthy response" using statusIs_truthy by blast
  with a show "generateNGSILDOperationHandler E ''query'' entityName typeInformation token
      options (error, response, body) w = (Success body, release w)"
    by (auto simp: generateNGSILDOperationHandler_def hasOrionError_def split: sum.splits)
next
  show "alarm (raise w)" by (simp add: raise_def)
next
  show "\<not> alarm (release w)" by (simp add: release_def)
next
  let ?w1 = "afterReplies E operationName entityName typeInformation token options earlier w"
  assume "fst (generateNGSILDOperationHandler E operationName entityName typeInformation token
              options reply ?w1) = Success b"
  then obtain w' where h: "generateNGSILDOperationHandler E operationName entityName
      typeInformation token options reply ?w1 = (Success b, w')"
    by (cases "generateNGSILDOperationHandler E operationName entityName
      typeInformation token options reply ?w1") simp
  then have "w' = release ?w1" by (rule handler_success_releases)
  with h show "\<not> alarm (afterReplies E operationName entityName typeInformation token options
                 (earlier @ [reply]) w)"
    by (simp add: afterReplies_append release_def)
qed


lemma sample_earlier:
  "afterReplies sampleEnv ''update'' (JStr ''s1'') (JObj [(''type'', JStr ''Sensor'')]) JUndef
     (JObj []) [(JStr ''ETIMEDOUT'', JUndef, JUndef), (JStr ''ETIMEDOUT'', JUndef, JUndef)]
     \<lparr>alarm = False, sent = []\<rparr> = \<lparr>alarm = True, sent = []\<rparr>"
  by (simp add: generateNGSILDOperationHandler_def raise_def)

theorem alarm_raised_and_released_witness:
  "generateNGSILDOperationHandler sampleEnv ''update'' (JStr ''s1'')
     (JObj [(''type'', JStr ''Sensor'')]) JUndef (JObj [])
     (JNull, JObj [(''statusCode'', JNum (Fin 204))], JUndef) \<lparr>alarm = True, sent = []\<rparr>
     = (Success JUndef, release \<lparr>alarm = True, sent = []\<rparr>)
   \<and> \<not> alarm (afterReplies sampleEnv ''update'' (JStr ''s1'')
        (JObj [(''type'', JStr ''Sensor'')]) JUndef (JObj [])
        ([(JStr ''ETIMEDOUT'', JUndef, JUndef), (JStr ''ETIMEDOUT'', JUndef, JUndef)]
           @ [(JNull, JObj [(''statusCode'', JNum (Fin 204))], JUndef)])
        \<lparr>alarm = False, sent = []\<rparr>)"
proof -
  let ?ok = "(JNull, JObj [(''statusCode'', JNum (Fin 204))], JUndef)"
  let ?ti = "JObj [(''type'', JStr ''Sensor'')]"
  have h1: "\<not> truthy JNull \<and> \<not> hasOrionError JUndef
            \<and> statusIs (JObj [(''statusCode'', JNum (Fin 204))]) 204"
    by (simp add: hasOrionError_def statusIs_def)
  have h2: "fst (generateNGSILDOperationHandler sampleEnv ''update'' (JStr ''s1'') ?ti JUndef
              (JObj []) ?ok
              (afterReplies sampleEnv ''update'' (JStr ''s1'') ?ti JUndef (JObj [])
                 [(JStr ''ETIMEDOUT'', JUndef, JUndef), (JStr ''ETIMEDOUT'', JUndef, JUndef)]
                 \<lparr>alarm = False, sent = []\<rparr>)) = Success JUndef"
    by (simp add: sample_earlier generateNGSILDOperationHandler_def statusIs_def)
  from alarm_raised_and_released [where error = JNull and E = sampleEnv
      and operationName = "''update''" and entityName = "JStr ''s1''" and typeInformation = ?ti
      and token = JUndef and options = "JObj []"
      and response = "JObj [(''statusCode'', JNum (Fin 204))]" and body = JUndef
      and w = "\<lparr>alarm = True, sent = []\<rparr>"] h1
  have a: "generateNGSILDOperationHandler sampleEnv ''update'' (JStr ''s1'') ?ti JUndef (JObj [])
     ?ok \<lparr>alarm = True, sent = []\<rparr> = (Success JUndef, release \<lparr>alarm = True, sent = []\<rparr>)"
    by blast
  from alarm_raised_and_released [where error = JNull and E = sampleEnv
      and operationName = "''update''" and entityName = "JStr ''s1''" and typeInformation = ?ti
      and token = JUndef and options = "JObj []"
      and response = "JObj [(''statusCode'', JNum (Fin 204))]" and body = JUndef
      and w = "\<lparr>alarm = False, sent = []\<rparr>" and reply = ?ok and b = JUndef
      and earlier = "[(JStr ''ETIMEDOUT'', JUndef, JUndef), (JStr ''ETIMEDOUT'', JUndef, JUndef)]"]
    h2
  have b: "\<not> alarm (afterReplies sampleEnv ''update'' (JStr ''s1'') ?ti JUndef (JObj [])
        ([(JStr ''ETIMEDOUT'', JUndef, JUndef), (JStr ''ETIMEDOUT'', JUndef, JUndef)] @ [?ok])
        \<lparr>alarm = False, sent = []\<rparr>)"
    by blast
  from a b show ?thesis by blast
qed

text \<open>
  C4, as the specification states it, fails for a query answered with status 200
  and a body that holds a broker error: the handler reports \<^verbatim>\<open>BadRequest\<close> and
  leaves a raised alarm raised.
\<close>

theorem query_200_with_orionError_counterexample:
  "generateNGSILDOperationHandler sampleEnv ''query'' (JStr ''s1'')
     (JObj [(''type'', JStr ''Sensor'')]) JUndef (JObj [])
     (JNull, JObj [(''statusCode'', JNum (Fin 200))],
      JObj [(''orionError'', JObj [(''code'', JStr ''400''), (''details'', JStr ''x'')])])
     \<lparr>alarm = True, sent = []\<rparr>
   = (Failure (BadRequest (JStr ''x'')), \<lparr>alarm = True, sent = []\<rparr>)"
  by (simp add: generateNGSILDOperationHandler_def)

lemma getProp_defined: "getProp v k = Inr a \<Longrightarrow> \<exists>b. getProp v k' = Inr b"
  by (cases v) (auto split: option.splits)

text \<open>
  C5, as the code has it. For an exchange without an error of the transport whose
  response has status 404 and a body without a broker error (\<^verbatim>\<open>orionError\<close>),
  and whose error field has details that can be searched: the outcome is
  \<^verbatim>\<open>DeviceNotFound\<close> when the details contain the type of the device, otherwise
  \<^verbatim>\<open>AttributeNotFound\<close> when the code of the error field is \<^verbatim>\<open>'404'\<close>,
  otherwise \<^verbatim>\<open>EntityGenericError\<close>; the alarm is left as it was.
\<close>

theorem not_found_classification:
  assumes "\<not> truthy error" and "\<not> hasOrionError body" and "truthy body"
    and "statusIs response 404"
    and "getErrorField E body = Inr errorField"
    and "getProp errorField ''details'' = Inr details"
    and "getProp typeInformation ''type'' = Inr ty"
    and "includesOf (numToString E) details ty = Inr found"
  shows "generateNGSILDOperationHandler E operationName entityName typeInformation token options
           (error, response, body) w =
         (if found then Failure (DeviceNotFound entityName)
          else if getProp errorField ''code'' = Inr (JStr ''404'') then Failure AttributeNotFound
          else Failure (EntityGenericError entityName ty body JUndef), w)"
proof -
  have r: "truthy response" using assms(4) by (rule statusIs_truthy)
  have n: "\<not> statusIs response 204" "\<not> statusIs response 200" "\<not> statusIs response 403"
    "\<not> statusIs response 401"
    using assms(4) statusIs_unique [of response 404] by fastforce+
  obtain code where c: "getProp errorField ''code'' = Inr code"
    using getProp_defined [OF assms(6)] by blast
  have nf: "notFound E entityName typeInformation body =
         (if found then Failure (DeviceNotFound entityName)
          else if code = JStr ''404'' then Failure AttributeNotFound
          else Failure (EntityGenericError entityName ty body JUndef))"
    using assms(5-8) c by (auto simp: notFound_def)
  have o: "\<not> (truthy body \<and> (case getProp body ''orionError'' of
                                   Inl e \<Rightarrow> False | Inr oe \<Rightarrow> truthy oe))"
    using assms(2) by (simp add: hasOrionError_def)
  show ?thesis
    unfolding generateNGSILDOperationHandler_def
    using assms(1,3,4) r n nf c o by auto
qed

theorem not_found_classification_witness:
  "generateNGSILDOperationHandler sampleEnv ''update'' (JStr ''s1'')
     (JObj [(''type'', JStr ''Sensor'')]) JUndef (JObj [])
     (JNull, JObj [(''statusCode'', JNum (Fin 404))],
      JObj [(''errorCode'', JObj [(''code'', JStr ''404''),
                                  (''details'', JStr ''no Sensor here'')])])
     \<lparr>alarm = False, sent = []\<rparr>
   = (Failure (DeviceNotFound (JStr ''s1'')), \<lparr>alarm = False, sent = []\<rparr>)"
proof -
  let ?ef = "JObj [(''code'', JStr ''404''), (''details'', JStr ''no Sensor here'')]"
  let ?body = "JObj [(''errorCode'', ?ef)]"
  have g: "getErrorField sampleEnv ?body = Inr ?ef"
    by (simp add: sampleEnv_def)
  have i: "includesOf (numToString sampleEnv) (JStr ''no Sensor here'') (JStr ''Sensor'') = Inr True"
    by simp
  have h: "\<not> truthy JNull" "\<not> hasOrionError ?body" "truthy ?body"
    "statusIs (JObj [(''statusCode'', JNum (Fin 404))]) 404"
    "getProp ?ef ''details'' = Inr (JStr ''no Sensor here'')"
    "getProp (JObj [(''type'', JStr ''Sensor'')]) ''type'' = Inr (JStr ''Sensor'')"
    by (simp_all add: hasOrionError_def statusIs_def)
  from not_found_classification [OF h(1,2,3,4) g h(5,6) i,
      of "''update''" "JStr ''s1''" JUndef "JObj []" "\<lparr>alarm = False, sent = []\<rparr>"]
  show ?thesis by simp
qed

text \<open>
  C5, as the specification states it, fails for a response of status 404 whose
  body holds a broker error: the outcome is \<^verbatim>\<open>BadRequest\<close>, though the details
  contain the type of the device.
\<close>

theorem not_found_with_orionError_counterexample:
  "generateNGSILDOperationHandler sampleEnv ''update'' (JStr ''s1'')
     (JObj [(''type'', JStr ''Sensor'')]) JUndef (JObj [])
     (JNull, JObj [(''statusCode'', JNum (Fin 404))],
      JObj [(''orionError'', JObj [(''code'', JStr ''404''),
                                   (''details'', JStr ''no Sensor here'')])])
     \<lparr>alarm = False, sent = []\<rparr>
   = (Failure (BadRequest (JStr ''no Sensor here'')), \<lparr>alarm = False, sent = []\<rparr>)"
  by (simp add: generateNGSILDOperationHandler_def)

section \<open>Properties of the update and of the query\<close>

lemma handler_sent:
  "generateNGSILDOperationHandler E operationName entityName typeInformation token options reply w
     = (out, w') \<Longrightarrow> sent w' = sent w"
  by (auto simp: generateNGSILDOperationHandler_def raise_def release_def
      split: prod.splits if_splits sum.splits)

lemma exchange_sent:
  "exchange E operationName entityName typeInformation token req w = (out, w')
   \<Longrightarrow> sent w' = sent w @ [req]"
  unfolding exchange_def by (drule handler_sent) simp

lemma sendSeries_append:
  "sendSeries E ti token options (xs @ ys) w =
     (case sendSeries E ti token options xs w of
        (Success b, w1) \<Rightarrow> sendSeries E ti token options ys w1
      | (out, w1) \<Rightarrow> (out, w1))"
proof (induction xs arbitrary: w)
  case Nil
  then show ?case by simp
next
  case (Cons x xs)
  show ?case
    by (simp add: Cons.IH split: sum.splits option.splits prod.splits outcome.splits)
qed

lemma sendSeries_success_sent:
  "sendSeries E ti token options ents w = (Success b, w1)
   \<Longrightarrow> sent w1 = sent w @ requestsOf E options ents"
proof (induction ents arbitrary: w)
  case Nil
  then show ?case by (simp add: requestsOf_def)
next
  case (Cons x xs)
  show ?case
  proof (cases "requestFor E options x")
    case (Inl e)
    with Cons.prems show ?thesis by simp
  next
    case (Inr r)
    show ?thesis
    proof (cases r)
      case None
      with Inr Cons.prems have "sendSeries E ti token options xs w = (Success b, w1)" by simp
      from Cons.IH [OF this] Inr None show ?thesis by (simp add: requestsOf_def)
    next
      case (Some p)
      obtain eid req where p: "p = (eid, req)" by (cases p)
      obtain out w' where ex: "exchange E ''update'' eid ti token req w = (out, w')"
        by (cases "exchange E ''update'' eid ti token req w")
      from Cons.prems Inr Some p ex obtain b' where
        "out = Success b'" and rest: "sendSeries E ti token options xs w' = (Success b, w1)"
        by (cases out) auto
      from exchange_sent [OF ex] Cons.IH [OF rest] Inr Some p show ?thesis
        by (simp add: requestsOf_def)
    qed
  qed
qed

lemma requestsOf_Cons:
  "requestsOf E options (x # xs) =
     (case requestFor E options x of Inr (Some (entityId, req)) \<Rightarrow> [req] | _ \<Rightarrow> [])
     @ requestsOf E options xs"
  by (simp add: requestsOf_def)

lemma sendSeries_in_order:
  "\<exists>n. sent (snd (sendSeries E ti token options ents w))
        = sent w @ take n (requestsOf E options ents)"
proof (induction ents arbitrary: w)
  case Nil
  show ?case by simp
next
  case (Cons x xs)
  show ?case
  proof (cases "requestFor E options x")
    case (Inl e)
    then have "sent (snd (sendSeries E ti token options (x # xs) w))
                 = sent w @ take 0 (requestsOf E options (x # xs))" by simp
    then show ?thesis by blast
  next
    case (Inr r)
    show ?thesis
    proof (cases r)
      case None
      from Cons.IH [of w] obtain n where
        "sent (snd (sendSeries E ti token options xs w)) = sent w @ take n (requestsOf E options xs)"
        by blast
      with Inr None have "sent (snd (sendSeries E ti token options (x # xs) w))
                 = sent w @ take n (requestsOf E options (x # xs))"
        by (simp add: requestsOf_Cons)
      then show ?thesis by blast
    next
      case (Some p)
      obtain eid req where p: "p = (eid, req)" by (cases p)
      obtain out w' where ex: "exchange E ''update'' eid ti token req w = (out, w')"
        by (cases "exchange E ''update'' eid ti token req w")
      have s: "sent w' = sent w @ [req]" using ex by (rule exchange_sent)
      have rq: "requestsOf E options (x # xs) = req # requestsOf E options xs"
        using Inr Some p by (simp add: requestsOf_Cons)
      show ?thesis
      proof (cases "\<exists>b. out = Success b")
        case True
        then obtain b where b: "out = Success b" by blast
        from Cons.IH [of w'] obtain n where
          "sent (snd (sendSeries E ti token options xs w'))
             = sent w' @ take n (requestsOf E options xs)" by blast
        with Inr Some p ex b s rq
        have "sent (snd (sendSeries E ti token options (x # xs) w))
                 = sent w @ take (Suc n) (requestsOf E options (x # xs))"
          by simp
        then show ?thesis by blast
      next
        case False
        with Inr Some p ex have "sendSeries E ti token options (x # xs) w = (out, w')"
          by (cases out) auto
        with s rq have "sent (snd (sendSeries E ti token options (x # xs) w))
                 = sent w @ take (Suc 0) (requestsOf E options (x # xs))"
          by simp
        then show ?thesis by blast
      qed
    qed
  qed
qed

text \<open>
  In every update call the requests issued are an initial part of the requests
  of the target entities, in their order; a call that ends before the series
  issues none.
\<close>

lemma update_requests_in_order:
  assumes "updateOptions E typeInformation token = Inr options"
  shows "(\<forall>ents. targetEntities E entityId attributes typeInformation = Inr ents \<longrightarrow>
      (\<exists>n. sent (snd (sendUpdateValueNgsiLD E entityId attributes typeInformation token w))
         = sent w @ take n (requestsOf E options ents)))
   \<and> (\<forall>out. targetEntities E entityId attributes typeInformation = Inl out \<longrightarrow>
      sendUpdateValueNgsiLD E entityId attributes typeInformation token w = (out, w))"
  using sendSeries_in_order [of E typeInformation token options _ w] assms
  by (simp add: sendUpdateValueNgsiLD_def)

lemma update_without_request_object:
  "updateOptions E typeInformation token = Inl e \<Longrightarrow>
   sendUpdateValueNgsiLD E entityId attributes typeInformation token w = (Uncaught e, w)"
  by (simp add: sendUpdateValueNgsiLD_def)

text \<open>
  C1. An update call whose target entities are \<open>pre\<close>, \<open>entity\<close> and
  \<open>post\<close>, in this order: when the exchanges for \<open>pre\<close> have succeeded and
  the exchange for \<open>entity\<close> fails, the call hands the error of that exchange to
  its callback; the requests issued are those of \<open>pre\<close>, in order, followed by
  the request of \<open>entity\<close>, and nothing else: no request for \<open>post\<close> and none
  that takes back an update of \<open>pre\<close>.
\<close>

theorem series_stops_at_first_failure:
  assumes "updateOptions E typeInformation token = Inr options"
    and "targetEntities E entityId attributes typeInformation = Inr (pre @ entity # post)"
    and "sendSeries E typeInformation token options pre w = (Success b, w1)"
    and "requestFor E options entity = Inr (Some (eid, req))"
    and "exchange E ''update'' eid typeInformation token req w1 = (Failure error, w2)"
  shows "sendUpdateValueNgsiLD E entityId attributes typeInformation token w = (Failure error, w2)
       \<and> sent w1 = sent w @ requestsOf E options pre
       \<and> sent w2 = sent w @ requestsOf E options pre @ [req]"
proof -
  have "sendSeries E typeInformation token options (entity # post) w1 = (Failure error, w2)"
    using assms(4,5) by simp
  then have "sendSeries E typeInformation token options (pre @ entity # post) w
               = (Failure error, w2)"
    using assms(3) by (simp add: sendSeries_append)
  then have r: "sendUpdateValueNgsiLD E entityId attributes typeInformation token w
                  = (Failure error, w2)"
    using assms(1,2) by (simp add: sendUpdateValueNgsiLD_def)
  have s1: "sent w1 = sent w @ requestsOf E options pre"
    using assms(3) by (rule sendSeries_success_sent)
  have s2: "sent w2 = sent w1 @ [req]"
    using assms(5) by (rule exchange_sent)
  from r s1 s2 show ?thesis by simp
qed

text \<open>The request object of the examples.\<close>

lemma sample3_options:
  "updateOptions sampleEnv3 (JObj [(''type'', JStr ''Sensor'')]) JUndef
   = Inr [(''url'', JStr ''http://broker/ngsi-ld/v1/entities/''), (''method'', JStr ''PATCH''),
          (''headers'', JObj [(''fiware-service'', JStr ''smart''),
                              (''fiware-servicepath'', JStr ''/gardens'')])]"
  by code_simp

lemma sample3_targets: "targetEntities sampleEnv3 (JStr ''s1'')
     [JObj [(''name'', JStr ''t''), (''type'', JStr ''float''), (''value'', JStr ''21.5'')]]
     (JObj [(''type'', JStr ''Sensor'')])
   = Inr ([sampleEnvelope ''a'' 1] @ sampleEnvelope ''b'' 2 # [sampleEnvelope ''c'' 3])"
  by code_simp


lemma sample3_first:
  "sendSeries sampleEnv3 (JObj [(''type'', JStr ''Sensor'')]) JUndef
     [(''url'', JStr ''http://broker/ngsi-ld/v1/entities/''), (''method'', JStr ''PATCH''),
      (''headers'', JObj [(''fiware-service'', JStr ''smart''),
                          (''fiware-servicepath'', JStr ''/gardens'')])]
     [sampleEnvelope ''a'' 1] \<lparr>alarm = False, sent = []\<rparr>
   = (Success JUndef, \<lparr>alarm = False, sent = [sampleRequest ''a'' 1]\<rparr>)"
  by code_simp

lemma sample3_second_request:
  "requestFor sampleEnv3 [(''url'', JStr ''http://broker/ngsi-ld/v1/entities/''), (''method'', JStr ''PATCH''),
      (''headers'', JObj [(''fiware-service'', JStr ''smart''),
                          (''fiware-servicepath'', JStr ''/gardens'')])]
     (sampleEnvelope ''b'' 2)
   = Inr (Some (JStr ''urn:ngsi-ld:Sensor:b'', sampleRequest ''b'' 2))"
  by code_simp

lemma sample3_second_exchange:
  "exchange sampleEnv3 ''update'' (JStr ''urn:ngsi-ld:Sensor:b'')
     (JObj [(''type'', JStr ''Sensor'')]) JUndef (sampleRequest ''b'' 2)
     \<lparr>alarm = False, sent = [sampleRequest ''a'' 1]\<rparr>
   = (Failure (Other (JStr ''ECONNREFUSED'')),
      \<lparr>alarm = True, sent = [sampleRequest ''a'' 1, sampleRequest ''b'' 2]\<rparr>)"
  by code_simp

theorem series_stops_at_first_failure_witness:
  "sendUpdateValueNgsiLD sampleEnv3 (JStr ''s1'')
     [JObj [(''name'', JStr ''t''), (''type'', JStr ''float''), (''value'', JStr ''21.5'')]]
     (JObj [(''type'', JStr ''Sensor'')]) JUndef \<lparr>alarm = False, sent = []\<rparr>
   = (Failure (Other (JStr ''ECONNREFUSED'')),
      \<lparr>alarm = True, sent = [sampleRequest ''a'' 1, sampleRequest ''b'' 2]\<rparr>)
   \<and> sent \<lparr>alarm = True, sent = [sampleRequest ''a'' 1, sampleRequest ''b'' 2]\<rparr>
       = sent \<lparr>alarm = False, sent = []\<rparr>
         @ requestsOf sampleEnv3
             [(''url'', JStr ''http://broker/ngsi-ld/v1/entities/''), (''method'', JStr ''PATCH''),
      (''headers'', JObj [(''fiware-service'', JStr ''smart''),
                          (''fiware-servicepath'', JStr ''/gardens'')])]
             [sampleEnvelope ''a'' 1]
         @ [sampleRequest ''b'' 2]"
  using series_stops_at_first_failure [OF sample3_options sample3_targets sample3_first
      sample3_second_request sample3_second_exchange]
  by blast

text \<open>
  C10 at the failing input. A query without \<^verbatim>\<open>typeInformation\<close> reads
  \<^verbatim>\<open>typeInformation.type\<close> for the address (line 364) before the test of
  line 374: a \<^verbatim>\<open>TypeError\<close> leaves the function, the callback is not called with
  \<^verbatim>\<open>TypeNotFound\<close>. No request is issued and the alarm is as it was.
\<close>

theorem query_throws_without_typeInformation:
  "sendQueryValueNgsiLD E entityName attributes JUndef token w = (Uncaught TypeError, w)
   \<and> sendQueryValueNgsiLD E entityName attributes JNull token w = (Uncaught TypeError, w)"
  by (simp add: sendQueryValueNgsiLD_def)

theorem query_throws_without_typeInformation_witness:
  "sendQueryValueNgsiLD sampleEnv (JStr ''s1'') (Some [JStr ''t'']) JUndef JUndef
     \<lparr>alarm = False, sent = []\<rparr> = (Uncaught TypeError, \<lparr>alarm = False, sent = []\<rparr>)"
  using query_throws_without_typeInformation [of sampleEnv "JStr ''s1''" "Some [JStr ''t'']"
      JUndef "\<lparr>alarm = False, sent = []\<rparr>"]
  by blast

text \<open>
  Where C10 holds, provided \<^verbatim>\<open>NGSIUtils.createRequestObject\<close>, called before
  the test in both functions, does not throw: an update without
  \<^verbatim>\<open>typeInformation\<close> or without a type, and a query whose
  \<^verbatim>\<open>typeInformation\<close> has no type.
\<close>

lemma update_without_type:
  assumes "updateOptions E typeInformation token = Inr options"
    and "\<not> truthy typeInformation
           \<or> (\<exists>ty. getProp typeInformation ''type'' = Inr ty \<and> \<not> truthy ty)"
  shows "sendUpdateValueNgsiLD E entityId attributes typeInformation token w
           = (Failure (TypeNotFound JNull entityId), w)"
  using assms
  by (auto simp: sendUpdateValueNgsiLD_def targetEntities_def prepared_def split: sum.splits)

lemma query_without_type:
  assumes "getProp typeInformation ''type'' = Inr ty" and "\<not> truthy ty"
    and "\<And>url. \<exists>created. createRequestObject E url typeInformation token = Inr created"
  shows "sendQueryValueNgsiLD E entityName attributes typeInformation token w
           = (Failure (TypeNotFound JNull entityName), w)"
proof -
  have n: "\<And>url e. createRequestObject E url typeInformation token \<noteq> Inl e"
  proof
    fix url e
    assume "createRequestObject E url typeInformation token = Inl e"
    with assms(3) [of url] show False by auto
  qed
  show ?thesis
    by (simp add: sendQueryValueNgsiLD_def Let_def assms(1,2) n split: sum.split)
qed

section \<open>Geo-coordinates and internal keys in an update\<close>

lemma getLngLats_odd:
  "splitLngLat nts v = Inr sp \<Longrightarrow> odd (length (flatten sp)) \<Longrightarrow> getLngLats nts v = Inl PlainError"
  by (auto simp: getLngLats_def Let_def odd_iff_mod_2_eq_one)

lemma castByType_bad_geo:
  "toLowerCase ty \<in> set checkedGeoTypes \<Longrightarrow> getLngLats (numToString E) v = Inl e
   \<Longrightarrow> castByType E ty v = Inl e"
  by (auto simp: castByType_def checkedGeoTypes_def geoWith_def)

lemma convert_cast_fails:
  "getProp attr ''value'' = Inr v \<Longrightarrow> getProp attr ''type'' = Inr (JStr ty)
   \<Longrightarrow> castByType E ty v = Inl e \<Longrightarrow> convertNGSIv2ToLD E attr = Inl e"
  by (simp add: convertNGSIv2ToLD.simps)

lemma formatEntries_fails:
  "(k, attr) \<in> set kvs \<Longrightarrow> k \<notin> {''id'', ''type'', ''@context'', TIMESTAMP_ATTRIBUTE E}
   \<Longrightarrow> convertNGSIv2ToLD E attr = Inl e \<Longrightarrow> \<exists>e'. formatEntries E json kvs obj = Inl e'"
proof (induction kvs arbitrary: obj)
  case Nil
  then show ?case by simp
next
  case (Cons kv kvs)
  obtain key v where kv: "kv = (key, v)" by (cases kv)
  show ?case
  proof (cases "kv = (k, attr)")
    case True
    with Cons.prems kv show ?thesis by auto
  next
    case False
    with Cons.prems have "(k, attr) \<in> set kvs" by auto
    from Cons.IH [OF this Cons.prems(2,3)] have "\<And>o'. \<exists>e'. formatEntries E json kvs o' = Inl e'"
      by blast
    then show ?thesis using kv
      by (auto split: sum.splits jv.splits)
  qed
qed

lemma formatAsNGSILD_fails:
  assumes "(k, attr) \<in> set (entries ent)"
    and "k \<notin> {''id'', ''type'', ''@context'', TIMESTAMP_ATTRIBUTE E}"
    and "convertNGSIv2ToLD E attr = Inl e"
  shows "\<exists>e'. formatAsNGSILD E ent = Inl e'"
proof -
  obtain e' where "formatEntries E ent (entries ent)
      [(''@context'', JArr (map JStr (splitOn CHR '';'' (jsonLdContext E))))] = Inl e'"
    using formatEntries_fails [OF assms] by blast
  then show ?thesis
    by (cases ent) (simp_all add: formatAsNGSILD_def)
qed

lemma formatAll_fails:
  "ent \<in> set ents \<Longrightarrow> formatAsNGSILD E ent = Inl e \<Longrightarrow> \<exists>e'. formatAll E ents = Inl e'"
proof (induction ents)
  case Nil
  then show ?case by simp
next
  case (Cons x xs)
  then show ?case
    by (cases "x = ent") (auto split: sum.splits)
qed

lemma setKey_keeps_other:
  "(k, a) \<in> set (entries j) \<Longrightarrow> k \<noteq> k' \<Longrightarrow> setKey j k' x = Inr j'
   \<Longrightarrow> (k, a) \<in> set (entries j')"
  by (cases j) (auto simp: setKey_def setProp_keeps_other)

lemma encode_fails:
  assumes "ent \<in> set (if isArray result then map snd (entries json) else [json])"
    and "(k, attr) \<in> set (entries ent)"
    and "k \<notin> {''id'', ''type'', ''@context'', TIMESTAMP_ATTRIBUTE E}"
    and "convertNGSIv2ToLD E attr = Inl e"
  shows "encode E entityId typeInformation result json = Inl (Failure BadGeocoordinates)"
proof (cases "isArray result")
  case True
  with assms(1) have m: "ent \<in> set (map snd (entries json))" by simp
  obtain e1 where "formatAsNGSILD E ent = Inl e1"
    using formatAsNGSILD_fails [OF assms(2,3,4)] by blast
  from formatAll_fails [OF m this] obtain e2 where
    "formatAll E (map snd (entries json)) = Inl e2" by blast
  with True show ?thesis by (simp add: encode_def)
next
  case False
  with assms(1) have j: "ent = json" by simp
  have k: "k \<noteq> ''id''" "k \<noteq> ''type''" using assms(3) by auto
  show ?thesis
  proof (cases "setKey json ''id'' entityId")
    case (Inl x)
    with False show ?thesis by (simp add: encode_def)
  next
    case j1: (Inr j1)
    show ?thesis
    proof (cases "getProp typeInformation ''type''")
      case (Inl x)
      with False j1 show ?thesis by (simp add: encode_def)
    next
      case ty: (Inr ty)
      show ?thesis
      proof (cases "setKey j1 ''type'' ty")
        case (Inl x)
        with False j1 ty show ?thesis by (simp add: encode_def)
      next
        case j2: (Inr j2)
        have "(k, attr) \<in> set (entries j1)"
          using setKey_keeps_other [OF _ k(1) j1] assms(2) j by simp
        then have "(k, attr) \<in> set (entries j2)"
          using setKey_keeps_other [OF _ k(2) j2] by simp
        from formatAsNGSILD_fails [OF this assms(3,4)] obtain e1 where
          "formatAsNGSILD E j2 = Inl e1" by blast
        with False j1 ty j2 show ?thesis by (simp add: encode_def)
      qed
    qed
  qed
qed

text \<open>
  C6, as the code has it. An update call in which an entity to encode has an
  attribute, not named \<^verbatim>\<open>id\<close>, \<^verbatim>\<open>type\<close>, \<^verbatim>\<open>@context\<close> or as the
  timestamp, declared \<^verbatim>\<open>geoproperty\<close>, \<^verbatim>\<open>point\<close>, \<^verbatim>\<open>linestring\<close>,
  \<^verbatim>\<open>polygon\<close> or \<^verbatim>\<open>multipoint\<close> (the last four also with \<^verbatim>\<open>geo:\<close>, in
  any letter case) whose coordinates flatten to a list of odd length: the call
  fails with \<^verbatim>\<open>BadGeocoordinates\<close> and no request is issued.
\<close>

theorem odd_coordinates_fail_update:
  assumes "updateOptions E typeInformation token = Inr options"
    and "prepared E entityId attributes typeInformation = Inr (result, json)"
    and "ent \<in> set (if isArray result then map snd (entries json) else [json])"
    and "(k, attr) \<in> set (entries ent)"
    and "k \<notin> {''id'', ''type'', ''@context'', TIMESTAMP_ATTRIBUTE E}"
    and "getProp attr ''type'' = Inr (JStr ty)"
    and "toLowerCase ty \<in> set checkedGeoTypes"
    and "getProp attr ''value'' = Inr v"
    and "splitLngLat (numToString E) v = Inr sp"
    and "odd (length (flatten sp))"
  shows "sendUpdateValueNgsiLD E entityId attributes typeInformation token w
           = (Failure BadGeocoordinates, w)"
proof -
  have "getLngLats (numToString E) v = Inl PlainError"
    using assms(9,10) by (rule getLngLats_odd)
  then have "castByType E ty v = Inl PlainError"
    using assms(7) castByType_bad_geo by blast
  then have "convertNGSIv2ToLD E attr = Inl PlainError"
    using assms(6,8) convert_cast_fails by blast
  then have "encode E entityId typeInformation result json = Inl (Failure BadGeocoordinates)"
    using assms(3,4,5) encode_fails by blast
  then show ?thesis
    using assms(1,2) by (simp add: sendUpdateValueNgsiLD_def targetEntities_def)
qed

lemma sample_options:
  "updateOptions sampleEnv (JObj [(''type'', JStr ''Sensor'')]) JUndef
   = Inr [(''url'', JStr ''http://broker/ngsi-ld/v1/entities/''), (''method'', JStr ''PATCH''),
          (''headers'', JObj [(''fiware-service'', JStr ''smart''),
                              (''fiware-servicepath'', JStr ''/gardens'')])]"
  by code_simp

lemma sample_prepared:
  "prepared sampleEnv (JStr ''s1'')
     [JObj [(''name'', JStr ''loc''), (''type'', JStr ''geo:linestring''), (''value'', JStr ''1,2,3'')]]
     (JObj [(''type'', JStr ''Sensor'')])
   = Inr (JObj [(''id'', JStr ''s1''), (''type'', JStr ''Sensor''),
                (''loc'', JObj [(''value'', JStr ''1,2,3''), (''type'', JStr ''geo:linestring'')])],
          JObj [(''loc'', JObj [(''value'', JStr ''1,2,3''), (''type'', JStr ''geo:linestring'')])])"
  by code_simp


theorem odd_coordinates_fail_update_witness:
  "sendUpdateValueNgsiLD sampleEnv (JStr ''s1'')
     [JObj [(''name'', JStr ''loc''), (''type'', JStr ''geo:linestring''), (''value'', JStr ''1,2,3'')]]
     (JObj [(''type'', JStr ''Sensor'')]) JUndef \<lparr>alarm = False, sent = []\<rparr>
   = (Failure BadGeocoordinates, \<lparr>alarm = False, sent = []\<rparr>)"
proof -
  let ?attr = "JObj [(''value'', JStr ''1,2,3''), (''type'', JStr ''geo:linestring'')]"
  let ?json = "JObj [(''loc'', ?attr)]"
  let ?result = "JObj [(''id'', JStr ''s1''), (''type'', JStr ''Sensor''), (''loc'', ?attr)]"
  have h2: "?json \<in> set (if isArray ?result then map snd (entries ?json) else [?json])"
    by (simp add: isArray_def)
  have h3: "(''loc'', ?attr) \<in> set (entries ?json)" by simp
  have h4: "''loc'' \<notin> {''id'', ''type'', ''@context'', TIMESTAMP_ATTRIBUTE sampleEnv}"
    by (simp add: sampleEnv_fields)
  have h5: "getProp ?attr ''type'' = Inr (JStr ''geo:linestring'')" by simp
  have h6: "toLowerCase ''geo:linestring'' \<in> set checkedGeoTypes" by code_simp
  have h7: "getProp ?attr ''value'' = Inr (JStr ''1,2,3'')" by simp
  have h8: "splitLngLat (numToString sampleEnv) (JStr ''1,2,3'')
              = Inr (JArr [JNum (Fin 1), JNum (Fin 2), JNum (Fin 3)])"
    by code_simp
  have h9: "odd (length (flatten (JArr [JNum (Fin 1), JNum (Fin 2), JNum (Fin 3)])))"
    by simp
  from odd_coordinates_fail_update [OF sample_options sample_prepared h2 h3 h4 h5 h6 h7 h8 h9]
  show ?thesis .
qed

text \<open>
  C6, as the specification states it, fails for an attribute that is named as the
  timestamp: \<^verbatim>\<open>formatAsNGSILD\<close> leaves it out of the envelope unconverted, the
  entity has nothing left to send, and the call succeeds.
\<close>

theorem timestamp_named_geometry_counterexample:
  "sendUpdateValueNgsiLD sampleEnv (JStr ''s1'')
     [JObj [(''name'', JStr ''TimeInstant''), (''type'', JStr ''geo:point''),
            (''value'', JStr ''1,2,3'')]]
     (JObj [(''type'', JStr ''Sensor'')]) JUndef \<lparr>alarm = False, sent = []\<rparr>
   = (Success JUndef, \<lparr>alarm = False, sent = []\<rparr>)"
  by code_simp

text \<open>
  The branches of \<^verbatim>\<open>multilinestring\<close> and \<^verbatim>\<open>multipolygon\<close> do not call
  \<^verbatim>\<open>getLngLats\<close>, as the four branches before them do: any value becomes
  the coordinates as it is, and the payload is sent.
\<close>

lemma multi_geometries_not_checked:
  "(toLowerCase ty = ''multilinestring'' \<or> toLowerCase ty = ''geo:multilinestring'' \<longrightarrow>
      castByType E ty v = Inr (geoProperty ''MultiLineString'' v))
   \<and> (toLowerCase ty = ''multipolygon'' \<or> toLowerCase ty = ''geo:multipolygon'' \<longrightarrow>
      castByType E ty v = Inr (geoProperty ''MultiPolygon'' v))"
  by (auto simp: castByType_def)

lemma multilinestring_update_is_sent:
  "sendUpdateValueNgsiLD sampleEnv (JStr ''s1'')
     [JObj [(''name'', JStr ''loc''), (''type'', JStr ''multilinestring''),
            (''value'', JStr ''1,2,3'')]]
     (JObj [(''type'', JStr ''Sensor'')]) JUndef \<lparr>alarm = False, sent = []\<rparr>
   = (Success JUndef,
      \<lparr>alarm = False,
       sent = [JObj [(''url'', JStr ''http://broker/ngsi-ld/v1/entities/urn:ngsi-ld:Sensor:s1/attrs''),
                     (''method'', JStr ''PATCH''),
                     (''headers'', JObj [(''fiware-service'', JStr ''smart''),
                                         (''fiware-servicepath'', JStr ''/gardens'')]),
                     (''json'',
                      JObj [(''@context'', JArr [JStr ''http://context'']),
                            (''loc'',
                             JObj [(''type'', JStr ''GeoProperty''),
                                   (''value'', JObj [(''type'', JStr ''MultiLineString''),
                                                     (''coordinates'', JStr ''1,2,3'')])])])]]\<rparr>)"
  by code_simp

lemma multipolygon_update_is_sent:
  "sendUpdateValueNgsiLD sampleEnv (JStr ''s1'')
     [JObj [(''name'', JStr ''loc''), (''type'', JStr ''geo:multipolygon''),
            (''value'', JStr ''1,2,3'')]]
     (JObj [(''type'', JStr ''Sensor'')]) JUndef \<lparr>alarm = False, sent = []\<rparr>
   = (Success JUndef,
      \<lparr>alarm = False,
       sent = [JObj [(''url'', JStr ''http://broker/ngsi-ld/v1/entities/urn:ngsi-ld:Sensor:s1/attrs''),
                     (''method'', JStr ''PATCH''),
                     (''headers'', JObj [(''fiware-service'', JStr ''smart''),
                                         (''fiware-servicepath'', JStr ''/gardens'')]),
                     (''json'',
                      JObj [(''@context'', JArr [JStr ''http://context'']),
                            (''loc'',
                             JObj [(''type'', JStr ''GeoProperty''),
                                   (''value'', JObj [(''type'', JStr ''MultiPolygon''),
                                                     (''coordinates'', JStr ''1,2,3'')])])])]]\<rparr>)"
  by code_simp

text \<open>
  C2 at the failing input. When \<^verbatim>\<open>json\<close> is one entity, an object with no
  property \<^verbatim>\<open>length\<close>, the purge of lines 498 to 522 changes nothing: the
  loop over \<^verbatim>\<open>json.length\<close> runs in place of the loop written for this
  shape, and visits nothing. An attribute that carries \<^verbatim>\<open>object_id\<close> carries
  it still when the entity is encoded.
\<close>

theorem single_entity_purge_changes_nothing:
  assumes "lookupKey kvs ''length'' = JUndef"
  shows "purge E (JObj kvs) = Inr (JObj kvs)"
  using assms by (simp add: purge_def toNumber_def)

theorem single_entity_purge_changes_nothing_witness:
  "purge sampleEnv
     (JObj [(''t'', JObj [(''type'', JStr ''float''), (''value'', JStr ''1''),
                          (''object_id'', JStr ''t1'')])])
   = Inr (JObj [(''t'', JObj [(''type'', JStr ''float''), (''value'', JStr ''1''),
                              (''object_id'', JStr ''t1'')])])"
proof -
  have "lookupKey [(''t'', JObj [(''type'', JStr ''float''), (''value'', JStr ''1''),
                                 (''object_id'', JStr ''t1'')])] ''length'' = JUndef"
    by (simp add: lookupKey_def)
  from single_entity_purge_changes_nothing [OF this] show ?thesis .
qed

text \<open>
  In an array of entities the key is deleted, and in both shapes the attribute
  that \<^verbatim>\<open>convertNGSIv2ToLD\<close> builds has, besides its own five keys, only the
  names of the metadata entries: the payload on the wire has no \<^verbatim>\<open>object_id\<close>
  from the attribute.
\<close>

lemma array_purge_strips_object_id:
  "purge E
     (JArr [JObj [(''t'', JObj [(''type'', JStr ''float''), (''value'', JStr ''1''),
                                (''object_id'', JStr ''t1'')])]])
   = Inr (JArr [JObj [(''t'', JObj [(''type'', JStr ''float''), (''value'', JStr ''1'')])]])"
  by (simp add: purge_def purgeEntity_def purgeAttr_def lookupKey_def delProp_def)

lemma castByType_keys_sum:
  "(case castByType E ty v of
      Inl e \<Rightarrow> True
    | Inr obj \<Rightarrow> fst ` set obj \<subseteq> {''type'', ''value'', ''object''})"
  unfolding castByType_def Let_def
  by (simp add: property_def geoProperty_def geoWith_def split: sum.split bool.split)

lemma castByType_keys:
  "castByType E ty v = Inr obj \<Longrightarrow> fst ` set obj \<subseteq> {''type'', ''value'', ''object''}"
  using castByType_keys_sum [of E ty v] by simp

lemma convertMetadata_step:
  "convertMetadata E ((key, mv) # kvs) obj = Inr obj' \<Longrightarrow>
   \<exists>k' x. (k' = ''observedAt'' \<or> k' = ''unitCode'' \<or> k' = key)
          \<and> convertMetadata E kvs (setProp obj k' x) = Inr obj'"
proof -
  assume a: "convertMetadata E ((key, mv) # kvs) obj = Inr obj'"
  show ?thesis
  proof (cases "key = TIMESTAMP_ATTRIBUTE E")
    case True
    with a obtain ts where ts: "getProp mv ''value'' = Inr ts"
      by (cases "getProp mv ''value''") auto
    show ?thesis
    proof (cases "ts = JStr (ATTRIBUTE_DEFAULT E) \<or> \<not> momentIsValid E ts")
      case d: True
      with a True ts have
        "convertMetadata E kvs (setProp obj ''observedAt'' (JStr (DATETIME_DEFAULT E))) = Inr obj'"
        by auto
      then show ?thesis by blast
    next
      case d: False
      with a True ts have
        "convertMetadata E kvs (setProp obj ''observedAt'' (momentISO E ts)) = Inr obj'"
        by auto
      then show ?thesis by blast
    qed
  next
    case nts: False
    show ?thesis
    proof (cases "key = ''unitCode''")
      case True
      with a nts obtain u where u: "getProp mv ''value'' = Inr u"
        by (cases "getProp mv ''value''") auto
      with a nts True have "convertMetadata E kvs (setProp obj ''unitCode'' u) = Inr obj'"
        by auto
      then show ?thesis by blast
    next
      case False
      with a nts obtain c where c: "convertNGSIv2ToLD E mv = Inr c"
        by (cases "convertNGSIv2ToLD E mv") auto
      with a nts False have "convertMetadata E kvs (setProp obj key c) = Inr obj'"
        by auto
      then show ?thesis by blast
    qed
  qed
qed

lemma convertMetadata_keys:
  "convertMetadata E kvs obj = Inr obj' \<Longrightarrow>
   fst ` set obj' \<subseteq> fst ` set obj \<union> {''observedAt'', ''unitCode''} \<union> fst ` set kvs"
proof (induction kvs arbitrary: obj)
  case Nil
  then show ?case by auto
next
  case (Cons kv kvs)
  obtain key mv where kv: "kv = (key, mv)" by (cases kv)
  have p: "convertMetadata E ((key, mv) # kvs) obj = Inr obj'"
    using Cons.prems unfolding kv .
  from convertMetadata_step [OF p] obtain k' x where
    k': "k' = ''observedAt'' \<or> k' = ''unitCode'' \<or> k' = key" and
    step: "convertMetadata E kvs (setProp obj k' x) = Inr obj'"
    by blast
  from Cons.IH [OF step] k' kv show ?case
    by (auto simp: keys_setProp)
qed

lemma wire_attribute_keys:
  assumes "convertNGSIv2ToLD E attr = Inr r" and "k \<in> fst ` set (entries r)"
  shows "k \<in> {''type'', ''value'', ''object'', ''observedAt'', ''unitCode''}
       \<or> (\<exists>m. getProp attr ''metadata'' = Inr m \<and> truthy m \<and> k \<in> fst ` set (entries m))"
proof -
  from assms(1) obtain v ty obj m where
    c: "castByType E ty v = Inr obj" and m: "getProp attr ''metadata'' = Inr m" and
    r: "(truthy m \<and> (\<exists>obj'. convertMetadata E (entries m) obj = Inr obj'
                        \<and> r = JObj (delProp obj' ''TimeInstant'')))
        \<or> (\<not> truthy m \<and> r = JObj obj)"
    by (auto simp: convertNGSIv2ToLD.simps split: sum.splits jv.splits if_splits)
  from r show ?thesis
  proof
    assume "truthy m \<and> (\<exists>obj'. convertMetadata E (entries m) obj = Inr obj'
                        \<and> r = JObj (delProp obj' ''TimeInstant''))"
    then obtain obj' where t: "truthy m" and
      cm: "convertMetadata E (entries m) obj = Inr obj'" and
      r': "r = JObj (delProp obj' ''TimeInstant'')" by blast
    from assms(2) r' have "k \<in> fst ` set obj'" by (simp add: keys_delProp)
    with convertMetadata_keys [OF cm] castByType_keys [OF c] m t show ?thesis by auto
  next
    assume "\<not> truthy m \<and> r = JObj obj"
    with assms(2) castByType_keys [OF c] show ?thesis by auto
  qed
qed

lemma sampleOid_reaches_encoder:
  "prepared sampleEnvOid (JStr ''s1'')
     [JObj [(''name'', JStr ''t''), (''type'', JStr ''float''), (''value'', JStr ''1'')]]
     (JObj [(''type'', JStr ''Sensor'')])
   = Inr (JObj [(''id'', JStr ''s1''), (''type'', JStr ''Sensor''),
                (''t'', JObj [(''type'', JStr ''float''), (''value'', JStr ''1''),
                              (''object_id'', JStr ''t1'')])],
          JObj [(''t'', JObj [(''type'', JStr ''float''), (''value'', JStr ''1''),
                              (''object_id'', JStr ''t1'')])])"
  by code_simp

lemma sampleOid_on_the_wire:
  "sendUpdateValueNgsiLD sampleEnvOid (JStr ''s1'')
     [JObj [(''name'', JStr ''t''), (''type'', JStr ''float''), (''value'', JStr ''1'')]]
     (JObj [(''type'', JStr ''Sensor'')]) JUndef \<lparr>alarm = False, sent = []\<rparr>
   = (Success JUndef, \<lparr>alarm = False, sent = [sampleRequest ''s1'' 1]\<rparr>)"
  by code_simp

end
